theory Spec2Isabelle
  imports Complex_Main "HOL-Library.AList"
begin

section \<open>Numbers\<close>

text \<open>
  The viewer (src/src/viewer.ts) computes with JavaScript numbers, which are IEEE doubles.
  A finite double is modelled as the real number it denotes; infinities and NaN are not
  modelled.  \<open>Math.PI\<close> is \<^term>\<open>pi\<close>; the remainder, the angle wrapping and the preset
  distances below are taken on the exact reals.  The remainder operator \<open>%\<close> truncates the
  quotient toward zero, so its result carries the sign of the dividend.
\<close>

definition trunc :: "real \<Rightarrow> int" where
  "trunc q = (if 0 \<le> q then \<lfloor>q\<rfloor> else \<lceil>q\<rceil>)"

definition js_rem :: "real \<Rightarrow> real \<Rightarrow> real" where
  "js_rem a b = a - b * of_int (trunc (a / b))"

text \<open>\<open>Math.hypot(dx, dy)\<close> with two arguments.\<close>

definition hypot :: "real \<Rightarrow> real \<Rightarrow> real" where
  "hypot dx dy = sqrt (dx\<^sup>2 + dy\<^sup>2)"

text \<open>
  The arithmetic of the drag, zoom and snap paths rounds after every operation, as the
  machine does: to the nearest double, ties to the even significand.  \<open>rne\<close> rounds a
  real to the nearest integer, ties to even.  The unit in the last place of \<open>v\<close> is 2 to
  the power \<open>ulpExp v\<close>: 52 binary places below the leading bit of \<open>v\<close>, and never below
  the exponent -1074 of the subnormal numbers.  \<open>fl v\<close> is the double nearest to \<open>v\<close>.
  Results of magnitude 2 to the power 1024 and above, which the machine turns into
  infinities, are outside the model; \<open>moderate\<close> singles out the doubles that are small
  enough for the operations below not to overflow on them.
\<close>

definition rne :: "real \<Rightarrow> int" where
  "rne q =
     (let f = \<lfloor>q\<rfloor>; r = q - of_int f
      in if r < 1 / 2 then f
         else if 1 / 2 < r then f + 1
         else if even f then f else f + 1)"

definition ulpExp :: "real \<Rightarrow> int" where
  "ulpExp v = max (\<lfloor>log 2 \<bar>v\<bar>\<rfloor> - 52) (- 1074)"

definition fl :: "real \<Rightarrow> real" where
  "fl v = of_int (rne (v / 2 powi ulpExp v)) * 2 powi ulpExp v"

definition moderate :: "real \<Rightarrow> bool" where
  "moderate v \<longleftrightarrow> fl v = v \<and> \<bar>v\<bar> \<le> 2 ^ 1000"

text \<open>The operators \<open>+\<close>, \<open>-\<close>, \<open>*\<close> and \<open>/\<close> on doubles.\<close>

definition dadd :: "real \<Rightarrow> real \<Rightarrow> real" where
  "dadd a b = fl (a + b)"

definition dsub :: "real \<Rightarrow> real \<Rightarrow> real" where
  "dsub a b = fl (a - b)"

definition dmul :: "real \<Rightarrow> real \<Rightarrow> real" where
  "dmul a b = fl (a * b)"

definition ddiv :: "real \<Rightarrow> real \<Rightarrow> real" where
  "ddiv a b = fl (a / b)"

text \<open>utils: \<open>clamp(value, min, max) = Math.min(max, Math.max(min, value))\<close> and
  \<open>lerp(a, b, t) = a + (b - a) * t\<close>.\<close>

definition clamp :: "real \<Rightarrow> real \<Rightarrow> real \<Rightarrow> real" where
  "clamp v lo hi = min hi (max lo v)"

definition lerp :: "real \<Rightarrow> real \<Rightarrow> real \<Rightarrow> real" where
  "lerp a b t = dadd a (dmul (dsub b a) t)"

definition MIN_DISTANCE :: real where
  "MIN_DISTANCE = 1.8"

definition MAX_DISTANCE :: real where
  "MAX_DISTANCE = 4.5"

definition DEFAULT_DISTANCE :: real where
  "DEFAULT_DISTANCE = 2.8"

text \<open>\<open>Viewer.wrapAngle\<close>: one remainder, then two independent corrections.\<close>

definition wrapAngle :: "real \<Rightarrow> real" where
  "wrapAngle angle =
     (let twoPi = pi * 2;
          wrapped = js_rem angle twoPi;
          wrapped = (if wrapped > pi then wrapped - twoPi else wrapped);
          wrapped = (if wrapped < - pi then wrapped + twoPi else wrapped)
      in wrapped)"

section \<open>Data\<close>

text \<open>types.ts: \<open>Preset = { name, yaw, pitch }\<close>; presets.ts: the four built-in presets.\<close>

record preset =
  name :: string
  yaw :: real
  pitch :: real

definition DEFAULT_PRESETS :: "preset list" where
  "DEFAULT_PRESETS =
     [\<lparr>name = ''front'', yaw = 0, pitch = 0\<rparr>,
      \<lparr>name = ''back'', yaw = pi, pitch = 0\<rparr>,
      \<lparr>name = ''left'', yaw = - pi / 2, pitch = 0\<rparr>,
      \<lparr>name = ''right'', yaw = pi / 2, pitch = 0\<rparr>]"

text \<open>The \<open>snap\<close> field of the viewer.\<close>

record snapTransition =
  active :: bool
  startYaw :: real
  startPitch :: real
  targetYaw :: real
  targetPitch :: real
  startTime :: real
  duration :: real

text \<open>
  A variant name is a JavaScript string: a list of UTF-16 code units.  \<open>utf16\<close> writes an
  ASCII literal as such a list.  (Preset names and node uuids are only compared for
  equality; they stay HOL strings.)
\<close>

type_synonym jsString = "nat list"

definition utf16 :: "string \<Rightarrow> jsString" where
  "utf16 cs = map of_char cs"

text \<open>
  A material is an object of the graphics library; only its identity matters here.  A mesh
  holds one material or an array of them (\<open>THREE.Material | THREE.Material[]\<close>).
\<close>

datatype material = Material nat

datatype materialSlot = Single material | Multi "material list"

text \<open>
  A scene node is a mesh (\<open>node instanceof THREE.Mesh\<close>) with its uuid and material, or any
  other object with its uuid.  The scene graph is a tree of nodes; \<open>traverse\<close> calls its
  callback on a node and on all its descendants, and the callbacks of the viewer change
  nothing but the material of the node they are called on.
\<close>

datatype node = Mesh string materialSlot | Other string

datatype 'a object3d = Object3D 'a "'a object3d list"

definition traverse :: "('a \<Rightarrow> 'a) \<Rightarrow> 'a object3d \<Rightarrow> 'a object3d" where
  "traverse callback obj = map_object3d callback obj"

text \<open>\<open>modelGroup\<close>: the group's own rotation and the graph below (and including) it.\<close>

record modelGroup =
  rotation_x :: real
  rotation_y :: real
  graph :: "node object3d"

record camera =
  position :: "real \<times> real \<times> real"

record pointerEvent =
  pointerId :: int
  clientX :: real
  clientY :: real

record wheelEvent =
  deltaY :: real

datatype handler = OnPointerDown | OnPointerMove | OnPointerUp | OnWheel

text \<open>
  The fields of class \<open>Viewer\<close> that the operations below read or write.  \<open>renderer\<close>,
  \<open>scene\<close> and \<open>resizeObserver\<close> say whether the field is non-null.  \<open>pointers\<close> is the
  \<open>Map\<close> of pointer id to its last sample \<open>(x, y)\<close>, in insertion order.  The last four
  fields are the part of the browser the viewer acts on: the listeners registered on the
  container, the class lists of the container and of the hint element, and the animation
  frames that are requested and not cancelled.
\<close>

record viewer =
  renderer :: bool
  scene :: bool
  camera :: "camera option"
  modelGroup :: "modelGroup option"
  resizeObserver :: bool
  animationHandle :: "nat option"
  presets :: "preset list"
  currentYaw :: real
  currentPitch :: real
  distance :: real
  zoomEnabled :: bool
  currentVariant :: "jsString option"
  dragging :: bool
  pinchDistance :: real
  pointers :: "(int \<times> (real \<times> real)) list"
  snap :: snapTransition
  variantMaterialsKHR :: "jsString \<rightharpoonup> (string \<rightharpoonup> material)"
  variantMaterialsByName :: "jsString \<rightharpoonup> (string \<rightharpoonup> material)"
  originalMaterials :: "string \<rightharpoonup> materialSlot"
  listeners :: "(string \<times> handler) set"
  containerClasses :: "string set"
  hintClasses :: "string set"
  scheduledFrames :: "nat set"

text \<open>The value returned by \<open>getState\<close>.\<close>

record viewerState =
  state_preset :: "string option"
  state_variant :: "jsString option"
  state_yaw :: real
  state_pitch :: real
  state_distance :: real

section \<open>Operations\<close>

subsection \<open>Orbit state and presets\<close>

definition updateModelRotation :: "viewer \<Rightarrow> viewer" where
  "updateModelRotation s =
     (case modelGroup s of
        None \<Rightarrow> s
      | Some g \<Rightarrow>
          s\<lparr>modelGroup := Some (g\<lparr>rotation_y := currentYaw s, rotation_x := currentPitch s\<rparr>)\<rparr>)"

definition updateDistance :: "real \<Rightarrow> viewer \<Rightarrow> viewer" where
  "updateDistance next s =
     (let s1 = s\<lparr>distance := clamp next MIN_DISTANCE MAX_DISTANCE\<rparr>
      in case camera s1 of
           None \<Rightarrow> s1
         | Some c \<Rightarrow> s1\<lparr>camera := Some (c\<lparr>position := (0, 0, distance s1)\<rparr>)\<rparr>)"

text \<open>
  The loop of \<open>findNearestPreset\<close>: the accumulator is \<open>(nearest, minDist)\<close>, where
  \<open>None\<close> stands for \<open>Number.POSITIVE_INFINITY\<close>, which every distance is below.
\<close>

fun nearestLoop ::
  "real \<Rightarrow> real \<Rightarrow> preset list \<Rightarrow> preset \<times> real option \<Rightarrow> preset \<times> real option" where
  "nearestLoop cy cp [] acc = acc"
| "nearestLoop cy cp (p # ps) (nearest, minDist) =
     (let dyaw = wrapAngle (cy - yaw p);
          dpitch = cp - pitch p;
          dist = hypot dyaw dpitch
      in if (case minDist of None \<Rightarrow> True | Some m \<Rightarrow> dist < m)
         then nearestLoop cy cp ps (p, Some dist)
         else nearestLoop cy cp ps (nearest, minDist))"

definition findNearestPreset :: "viewer \<Rightarrow> preset option" where
  "findNearestPreset s =
     (case presets s of
        [] \<Rightarrow> None
      | p0 # _ \<Rightarrow>
          Some (fst (nearestLoop (currentYaw s) (currentPitch s) (presets s) (p0, None))))"

text \<open>\<open>startSnapTo\<close> and \<open>updateSnap\<close> read the clock (\<open>performance.now()\<close>): it is the
  argument \<open>now\<close>.\<close>

definition startSnapTo :: "real \<Rightarrow> real \<Rightarrow> real \<Rightarrow> viewer \<Rightarrow> viewer" where
  "startSnapTo y p now s =
     s\<lparr>snap := \<lparr>active = True, startYaw = currentYaw s, startPitch = currentPitch s,
                targetYaw = y, targetPitch = p, startTime = now, duration = 450\<rparr>\<rparr>"

definition updateSnap :: "real \<Rightarrow> viewer \<Rightarrow> viewer" where
  "updateSnap now s =
     (if \<not> active (snap s) then s
      else
        let t = clamp (ddiv (dsub now (startTime (snap s))) (duration (snap s))) 0 1;
            ease = dmul t (dsub 2 t);
            s1 = s\<lparr>currentYaw := lerp (startYaw (snap s)) (targetYaw (snap s)) ease\<rparr>;
            s2 = s1\<lparr>currentPitch := lerp (startPitch (snap s1)) (targetPitch (snap s1)) ease\<rparr>;
            s3 = updateModelRotation s2
        in if t \<ge> 1 then s3\<lparr>snap := (snap s3)\<lparr>active := False\<rparr>\<rparr> else s3)"

definition setZoomEnabled :: "bool \<Rightarrow> viewer \<Rightarrow> viewer" where
  "setZoomEnabled enabled s = s\<lparr>zoomEnabled := enabled\<rparr>"

definition setPresets :: "preset list \<Rightarrow> viewer \<Rightarrow> viewer" where
  "setPresets ps s = s\<lparr>presets := (if length ps > 0 then ps else DEFAULT_PRESETS)\<rparr>"

definition setPreset :: "string \<Rightarrow> real \<Rightarrow> viewer \<Rightarrow> viewer" where
  "setPreset nm now s =
     (case find (\<lambda>p. name p = nm) (presets s) of
        None \<Rightarrow> s
      | Some p \<Rightarrow> startSnapTo (yaw p) (pitch p) now s)"

definition getState :: "viewer \<Rightarrow> viewerState" where
  "getState s =
     \<lparr>state_preset = map_option name (findNearestPreset s),
      state_variant = currentVariant s,
      state_yaw = currentYaw s,
      state_pitch = currentPitch s,
      state_distance = distance s\<rparr>"

subsection \<open>Gestures\<close>

definition distanceBetween :: "real \<times> real \<Rightarrow> real \<times> real \<Rightarrow> real" where
  "distanceBetween a b = hypot (fst a - fst b) (snd a - snd b)"

text \<open>
  The factors \<open>0.005\<close>, \<open>0.01\<close> and \<open>0.003\<close> of the gesture paths are the doubles
  nearest to these decimals.
  \<open>Map.set\<close> replaces the value of a present key in place and appends an absent key
  (\<^const>\<open>AList.update\<close>); \<open>Map.delete\<close> removes the key (\<^const>\<open>AList.delete\<close>);
  \<open>Array.from(pointers.values())\<close> lists the values in insertion order.  Pointer capture
  on the container is left to the browser.
\<close>

definition onPointerDown :: "pointerEvent \<Rightarrow> viewer \<Rightarrow> viewer" where
  "onPointerDown event s =
     (if \<not> renderer s then s
      else
        let s1 = s\<lparr>pointers :=
                   AList.update (pointerId event) (clientX event, clientY event) (pointers s)\<rparr>;
            s2 = (if length (pointers s1) = 1
                  then s1\<lparr>dragging := True,
                          snap := (snap s1)\<lparr>active := False\<rparr>,
                          hintClasses := insert ''is-hidden'' (hintClasses s1),
                          containerClasses := insert ''is-dragging'' (containerClasses s1)\<rparr>
                  else s1)
        in if length (pointers s2) = 2
           then let points = map snd (pointers s2)
                in s2\<lparr>pinchDistance := distanceBetween (points ! 0) (points ! 1)\<rparr>
           else s2)"

definition onPointerMove :: "pointerEvent \<Rightarrow> viewer \<Rightarrow> viewer" where
  "onPointerMove event s =
     (if \<not> renderer s then s
      else case map_of (pointers s) (pointerId event) of
        None \<Rightarrow> s
      | Some prev \<Rightarrow>
          let s1 = s\<lparr>pointers :=
                     AList.update (pointerId event) (clientX event, clientY event) (pointers s)\<rparr>;
              s2 = (if length (pointers s1) = 1 \<and> dragging s1
                    then let dx = dsub (clientX event) (fst prev);
                             dy = dsub (clientY event) (snd prev);
                             sensitivity = fl 0.005;
                             s1a = s1\<lparr>currentYaw := dadd (currentYaw s1) (dmul dx sensitivity)\<rparr>;
                             s1b = s1a\<lparr>currentPitch :=
                                     wrapAngle (dadd (currentPitch s1a) (dmul dy sensitivity))\<rparr>
                         in updateModelRotation s1b
                    else s1)
          in if length (pointers s2) = 2 \<and> zoomEnabled s2
             then let points = map snd (pointers s2);
                      nextDistance = distanceBetween (points ! 0) (points ! 1);
                      delta = dsub nextDistance (pinchDistance s2)
                  in if \<bar>delta\<bar> > 0.5
                     then (updateDistance (dsub (distance s2) (dmul delta (fl 0.01))) s2)
                            \<lparr>pinchDistance := nextDistance\<rparr>
                     else s2
             else s2)"

text \<open>\<open>onPointerUp\<close> also handles \<open>pointercancel\<close>.\<close>

definition onPointerUp :: "pointerEvent \<Rightarrow> real \<Rightarrow> viewer \<Rightarrow> viewer" where
  "onPointerUp event now s =
     (if \<not> renderer s then s
      else
        let s1 = s\<lparr>pointers := AList.delete (pointerId event) (pointers s)\<rparr>
        in if length (pointers s1) = 0 \<and> dragging s1
           then let s2 = s1\<lparr>dragging := False,
                            containerClasses := containerClasses s1 - {''is-dragging''}\<rparr>
                in case findNearestPreset s2 of
                     None \<Rightarrow> s2
                   | Some p \<Rightarrow> startSnapTo (yaw p) (pitch p) now s2
           else s1)"

definition onWheel :: "wheelEvent \<Rightarrow> viewer \<Rightarrow> viewer" where
  "onWheel event s =
     (if \<not> zoomEnabled s then s
      else updateDistance (dadd (distance s) (dmul (deltaY event) (fl 0.003))) s)"

subsection \<open>Material variants\<close>

text \<open>
  \<open>String.prototype.trim\<close> removes white space and line terminators from both ends: TAB,
  LF, VT, FF, CR, SPACE, NBSP, the other space separators \<open>U+1680\<close>, \<open>U+2000\<close> to
  \<open>U+200A\<close>, \<open>U+202F\<close>, \<open>U+205F\<close>, \<open>U+3000\<close>, the separators \<open>U+2028\<close> and \<open>U+2029\<close>,
  and \<open>U+FEFF\<close>.  Each is a single code unit.
\<close>

definition isWhiteSpace :: "nat \<Rightarrow> bool" where
  "isWhiteSpace c =
     (c \<in> {0x09, 0x0A, 0x0B, 0x0C, 0x0D, 0x20, 0xA0, 0x1680, 0x2028, 0x2029, 0x202F,
            0x205F, 0x3000, 0xFEFF}
      \<or> (0x2000 \<le> c \<and> c \<le> 0x200A))"

definition trim :: "jsString \<Rightarrow> jsString" where
  "trim str = rev (dropWhile isWhiteSpace (rev (dropWhile isWhiteSpace str)))"

definition onGraph :: "(node \<Rightarrow> node) \<Rightarrow> viewer \<Rightarrow> viewer" where
  "onGraph callback s =
     (case modelGroup s of
        None \<Rightarrow> s
      | Some g \<Rightarrow> s\<lparr>modelGroup := Some (g\<lparr>graph := traverse callback (graph g)\<rparr>)\<rparr>)"

definition restoreOriginalMaterials :: "viewer \<Rightarrow> viewer" where
  "restoreOriginalMaterials s =
     onGraph (\<lambda>nd. case nd of
                Other u \<Rightarrow> nd
              | Mesh u cur \<Rightarrow>
                  (case originalMaterials s u of
                     Some original \<Rightarrow> Mesh u original
                   | None \<Rightarrow> nd)) s"

definition applyVariantFromKHR :: "jsString \<Rightarrow> viewer \<Rightarrow> viewer" where
  "applyVariantFromKHR nm s =
     (case variantMaterialsKHR s nm of
        None \<Rightarrow> s
      | Some variantMap \<Rightarrow>
          onGraph (\<lambda>nd. case nd of
                     Other u \<Rightarrow> nd
                   | Mesh u cur \<Rightarrow>
                       (case variantMap u of
                          Some m \<Rightarrow> Mesh u (Single m)
                        | None \<Rightarrow>
                            (case originalMaterials s u of
                               Some original \<Rightarrow> Mesh u original
                             | None \<Rightarrow> nd))) s)"

definition applyVariantFromName :: "jsString \<Rightarrow> viewer \<Rightarrow> viewer" where
  "applyVariantFromName nm s =
     (case variantMaterialsByName s nm of
        None \<Rightarrow> s
      | Some variantMap \<Rightarrow>
          onGraph (\<lambda>nd. case nd of
                     Other u \<Rightarrow> nd
                   | Mesh u cur \<Rightarrow>
                       (case variantMap u of
                          Some m \<Rightarrow> Mesh u (Single m)
                        | None \<Rightarrow> nd)) s)"

definition setVariant :: "jsString \<Rightarrow> viewer \<Rightarrow> viewer" where
  "setVariant nm s =
     (if modelGroup s = None then s
      else
        let variant = trim nm
        in if length variant = 0
           then restoreOriginalMaterials (s\<lparr>currentVariant := None\<rparr>)
           else if variantMaterialsKHR s variant \<noteq> None
           then (applyVariantFromKHR variant s)\<lparr>currentVariant := Some variant\<rparr>
           else if variantMaterialsByName s variant \<noteq> None
           then (applyVariantFromName variant s)\<lparr>currentVariant := Some variant\<rparr>
           else restoreOriginalMaterials (s\<lparr>currentVariant := None\<rparr>))"

subsection \<open>Render loop and disposal\<close>

definition stopRenderLoop :: "viewer \<Rightarrow> viewer" where
  "stopRenderLoop s =
     (case animationHandle s of
        None \<Rightarrow> s
      | Some h \<Rightarrow> s\<lparr>scheduledFrames := scheduledFrames s - {h}, animationHandle := None\<rparr>)"

definition dispose :: "viewer \<Rightarrow> viewer" where
  "dispose s =
     (let s1 = stopRenderLoop s;
          s2 = s1\<lparr>resizeObserver := False\<rparr>;
          s3 = s2\<lparr>listeners := listeners s2
                  - {(''pointerdown'', OnPointerDown), (''pointermove'', OnPointerMove),
                     (''pointerup'', OnPointerUp), (''pointercancel'', OnPointerUp),
                     (''wheel'', OnWheel)}\<rparr>
      in s3\<lparr>renderer := False, scene := False, camera := None, modelGroup := None\<rparr>)"

text \<open>
  The viewer after \<open>new Viewer(elements)\<close> where WebGL is available: the field
  initialisers, then \<open>initThree\<close>, \<open>initEvents\<close>, \<open>startRenderLoop\<close> (the browser
  returns the frame handle \<open>h\<close>) and \<open>loadDefaultCube\<close> (a group holding one mesh).
\<close>

definition newViewer :: "nat \<Rightarrow> viewer" where
  "newViewer h =
     \<lparr>renderer = True, scene = True,
      camera = Some \<lparr>position = (0, 0, DEFAULT_DISTANCE)\<rparr>,
      modelGroup = Some \<lparr>rotation_x = 0, rotation_y = 0,
        graph = Object3D (Other ''group'')
                  [Object3D (Mesh ''cube'' (Single (Material 0))) []]\<rparr>,
      resizeObserver = True,
      animationHandle = Some h,
      presets = DEFAULT_PRESETS,
      currentYaw = 0, currentPitch = 0, distance = DEFAULT_DISTANCE,
      zoomEnabled = True, currentVariant = None,
      dragging = False, pinchDistance = 0, pointers = [],
      snap = \<lparr>active = False, startYaw = 0, startPitch = 0, targetYaw = 0,
              targetPitch = 0, startTime = 0, duration = 450\<rparr>,
      variantMaterialsKHR = Map.empty, variantMaterialsByName = Map.empty,
      originalMaterials = Map.empty,
      listeners = {(''pointerdown'', OnPointerDown), (''pointermove'', OnPointerMove),
                   (''pointerup'', OnPointerUp), (''pointercancel'', OnPointerUp),
                   (''wheel'', OnWheel)},
      containerClasses = {}, hintClasses = {}, scheduledFrames = {h}\<rparr>"

text \<open>
  A loaded asset as \<open>setSrc\<close> and \<open>prepareVariants\<close> leave it: the group holds the asset's
  scene with one mesh \<open>n1\<close> of material \<open>M0 = Material 0\<close>, captured in
  \<open>originalMaterials\<close>; the structured table maps variant \<open>Gold\<close> to \<open>M1 = Material 1\<close>
  for that mesh.
\<close>

definition goldViewer :: viewer where
  "goldViewer =
     (newViewer 1)
       \<lparr>modelGroup := Some \<lparr>rotation_x = 0, rotation_y = 0,
          graph = Object3D (Other ''group'')
                    [Object3D (Other ''scene'')
                       [Object3D (Mesh ''n1'' (Single (Material 0))) []]]\<rparr>,
        variantMaterialsKHR := [utf16 ''Gold'' \<mapsto> [''n1'' \<mapsto> Material 1]],
        originalMaterials := [''n1'' \<mapsto> Single (Material 0)]\<rparr>"

text \<open>
  The same asset when its metadata names the variant \<open>"Gold "\<close>, with a trailing blank:
  \<open>prepareVariants\<close> takes the names of the structured scheme as they are in the asset.
\<close>

definition spacedViewer :: viewer where
  "spacedViewer =
     goldViewer\<lparr>variantMaterialsKHR := [utf16 ''Gold '' \<mapsto> [''n1'' \<mapsto> Material 1]]\<rparr>"

text \<open>
  A loaded asset with two meshes and both tables: the structured table maps \<open>Gold\<close> to
  \<open>Material 1\<close> for \<open>n1\<close>; the material of \<open>n2\<close> is named \<open>Trim__Silver\<close>, so the
  naming table maps \<open>Silver\<close> to that material for \<open>n2\<close>.
\<close>

definition mixedViewer :: viewer where
  "mixedViewer =
     (newViewer 1)
       \<lparr>modelGroup := Some \<lparr>rotation_x = 0, rotation_y = 0,
          graph = Object3D (Other ''group'')
                    [Object3D (Other ''scene'')
                       [Object3D (Mesh ''n1'' (Single (Material 0))) [],
                        Object3D (Mesh ''n2'' (Single (Material 2))) []]]\<rparr>,
        variantMaterialsKHR := [utf16 ''Gold'' \<mapsto> [''n1'' \<mapsto> Material 1]],
        variantMaterialsByName := [utf16 ''Silver'' \<mapsto> [''n2'' \<mapsto> Material 2]],
        originalMaterials :=
          [''n1'' \<mapsto> Single (Material 0), ''n2'' \<mapsto> Single (Material 2)]\<rparr>"

section \<open>Remainder and angle wrapping\<close>

lemma js_rem_nonneg:
  assumes "0 < b" "0 \<le> a"
  shows "0 \<le> js_rem a b \<and> js_rem a b < b"
proof -
  have q: "0 \<le> a / b" using assms by simp
  have lo: "of_int \<lfloor>a / b\<rfloor> \<le> a / b" by simp
  have hi: "a / b < of_int \<lfloor>a / b\<rfloor> + 1" by linarith
  have "b * of_int \<lfloor>a / b\<rfloor> \<le> b * (a / b)"
    using lo assms(1) by (intro mult_left_mono) simp_all
  then have "b * of_int \<lfloor>a / b\<rfloor> \<le> a"
    using assms(1) by simp
  moreover have "b * (a / b) < b * (of_int \<lfloor>a / b\<rfloor> + 1)"
    using hi assms(1) by (intro mult_strict_left_mono) simp_all
  then have "a < b * (of_int \<lfloor>a / b\<rfloor> + 1)"
    using assms(1) by simp
  ultimately show ?thesis
    using q by (simp add: js_rem_def trunc_def algebra_simps)
qed

lemma js_rem_neg:
  assumes "0 < b" "a < 0"
  shows "- b < js_rem a b \<and> js_rem a b \<le> 0"
proof -
  have q: "\<not> 0 \<le> a / b" using assms by (simp add: divide_less_0_iff not_le)
  have hi: "a / b \<le> of_int \<lceil>a / b\<rceil>" by simp
  have lo: "of_int \<lceil>a / b\<rceil> - 1 < a / b" by linarith
  have "b * (a / b) \<le> b * of_int \<lceil>a / b\<rceil>"
    using hi assms(1) by (intro mult_left_mono) simp_all
  then have "a \<le> b * of_int \<lceil>a / b\<rceil>"
    using assms(1) by simp
  moreover have "b * (of_int \<lceil>a / b\<rceil> - 1) < b * (a / b)"
    using lo assms(1) by (intro mult_strict_left_mono) simp_all
  then have "b * (of_int \<lceil>a / b\<rceil> - 1) < a"
    using assms(1) by simp
  ultimately show ?thesis
    using q by (simp add: js_rem_def trunc_def algebra_simps)
qed

lemma js_rem_small:
  assumes "0 < b" "\<bar>a\<bar> < b"
  shows "js_rem a b = a"
proof (cases "0 \<le> a")
  case True
  then have "0 \<le> a / b" "a / b < 1" using assms by simp_all
  then have "\<lfloor>a / b\<rfloor> = 0" by linarith
  with True assms show ?thesis by (simp add: js_rem_def trunc_def)
next
  case False
  then have "a / b < 0" "- 1 < a / b"
    using assms by (simp_all add: divide_less_0_iff pos_less_divide_eq)
  then have "\<lceil>a / b\<rceil> = 0" by linarith
  with \<open>a / b < 0\<close> show ?thesis by (simp add: js_rem_def trunc_def)
qed

lemma js_rem_bounds:
  assumes "0 < b"
  shows "- b < js_rem a b \<and> js_rem a b < b"
  using js_rem_nonneg [OF assms, of a] js_rem_neg [OF assms, of a] assms
  by (cases "0 \<le> a") auto

lemma js_rem_multiple: "\<exists>k::int. js_rem a b = a + b * of_int k"
  by (rule exI [of _ "- trunc (a / b)"]) (simp add: js_rem_def)

lemma wrapAngle_range: "- pi \<le> wrapAngle a \<and> wrapAngle a \<le> pi"
  using js_rem_bounds [of "pi * 2" a] pi_gt_zero
  by (auto simp: wrapAngle_def Let_def)

lemma wrapAngle_fixed:
  assumes "- pi \<le> a" "a \<le> pi"
  shows "wrapAngle a = a"
proof -
  have "\<bar>a\<bar> < pi * 2" using assms pi_gt_zero by linarith
  then have "js_rem a (pi * 2) = a" by (intro js_rem_small) (use pi_gt_zero in auto)
  with assms show ?thesis by (simp add: wrapAngle_def Let_def)
qed

lemma wrapAngle_above:
  assumes "pi < a" "a < pi * 2"
  shows "wrapAngle a = a - pi * 2"
proof -
  have "\<bar>a\<bar> < pi * 2" using assms pi_gt_zero by linarith
  then have "js_rem a (pi * 2) = a" by (intro js_rem_small) (use pi_gt_zero in auto)
  with assms show ?thesis by (simp add: wrapAngle_def Let_def)
qed

lemma wrapAngle_multiple: "\<exists>k::int. wrapAngle a = a + 2 * pi * of_int k"
proof -
  obtain k :: int where k: "js_rem a (pi * 2) = a + pi * 2 * of_int k"
    using js_rem_multiple by blast
  have "wrapAngle a = a + 2 * pi * of_int k
      \<or> wrapAngle a = a + 2 * pi * of_int (k - 1)
      \<or> wrapAngle a = a + 2 * pi * of_int (k + 1)"
    using k pi_gt_zero by (auto simp: wrapAngle_def Let_def algebra_simps)
  then show ?thesis by blast
qed

text \<open>
  C3 (as the code has it).  For every real \<open>a\<close> the wrapped angle lies in the closed
  interval from \<open>-\<pi>\<close> to \<open>\<pi>\<close>, differs from \<open>a\<close> by a whole multiple of \<open>2\<pi>\<close>, and wrapping
  is idempotent.
\<close>

theorem wrapAngle_closed_interval_idempotent:
  "- pi \<le> wrapAngle a \<and> wrapAngle a \<le> pi
   \<and> (\<exists>k::int. wrapAngle a = a + 2 * pi * of_int k)
   \<and> wrapAngle (wrapAngle a) = wrapAngle a"
  using wrapAngle_range [of a] wrapAngle_multiple [of a]
  by (simp add: wrapAngle_fixed)

text \<open>
  C3 (as stated) fails at the lower end: \<open>-\<pi>\<close> is returned unchanged, because the second
  correction fires only strictly below \<open>-\<pi>\<close>; so the result is not always above \<open>-\<pi>\<close>.
\<close>

theorem wrapAngle_minus_pi_counterexample:
  "\<not> (- pi < wrapAngle (- pi) \<and> wrapAngle (- pi) \<le> pi)"
  using pi_gt_zero by (simp add: wrapAngle_fixed)


section \<open>Rounding\<close>

text \<open>
  Rounding to nearest is monotone, it fixes every double (a dyadic number whose
  significand fits 53 bits), and it moves a value by at most half a unit in the last
  place.  \<open>fl_eval\<close> computes it once the binade of its argument is known.
\<close>

lemma rne_of_int [simp]: "rne (of_int n) = n"
  by (simp add: rne_def)

lemma rne_zero [simp]: "rne 0 = 0"
  using rne_of_int [of 0] by simp

lemma powr_two_int:
  "(2::real) powr of_int b = 2 powi b"
  "(2::real) powr (of_int b + 1) = 2 powi (b + 1)"
  using powr_real_of_int' [of 2 b] powr_real_of_int' [of 2 "b + 1"] by simp_all

lemma rne_bounds: "\<lfloor>q\<rfloor> \<le> rne q \<and> rne q \<le> \<lfloor>q\<rfloor> + 1"
  by (simp add: rne_def Let_def)

lemma rne_mono:
  assumes "p \<le> q"
  shows "rne p \<le> rne q"
proof (cases "\<lfloor>p\<rfloor> = \<lfloor>q\<rfloor>")
  case True
  with assms show ?thesis by (auto simp: rne_def Let_def)
next
  case False
  with assms have "\<lfloor>p\<rfloor> + 1 \<le> \<lfloor>q\<rfloor>"
    using floor_mono [of p q] by linarith
  with rne_bounds [of p] rne_bounds [of q] show ?thesis by linarith
qed

lemma rne_minus: "rne (- q) = - rne q"
proof (cases "q = of_int \<lfloor>q\<rfloor>")
  case True
  then obtain n :: int where "q = of_int n" ..
  then have "- q = of_int (- n)" by simp
  with \<open>q = of_int n\<close> show ?thesis by (simp only: rne_of_int)
next
  case False
  then have lt: "of_int \<lfloor>q\<rfloor> < q" using of_int_floor_le [of q] by linarith
  have "q < of_int \<lfloor>q\<rfloor> + 1" by linarith
  with lt have fm: "\<lfloor>- q\<rfloor> = - \<lfloor>q\<rfloor> - 1" by linarith
  show ?thesis
    using lt by (auto simp: rne_def Let_def fm)
qed

lemma rne_half: "\<bar>of_int (rne q) - q\<bar> \<le> 1 / 2"
proof -
  have "of_int \<lfloor>q\<rfloor> \<le> q" "q < of_int \<lfloor>q\<rfloor> + 1" by linarith+
  then show ?thesis by (auto simp: rne_def Let_def)
qed

lemma binade:
  assumes "v \<noteq> 0"
  shows "2 powi \<lfloor>log 2 \<bar>v\<bar>\<rfloor> \<le> \<bar>v\<bar> \<and> \<bar>v\<bar> < 2 powi (\<lfloor>log 2 \<bar>v\<bar>\<rfloor> + 1)"
proof -
  have "(2::real) powr of_int \<lfloor>log 2 \<bar>v\<bar>\<rfloor> \<le> \<bar>v\<bar>
      \<and> \<bar>v\<bar> < 2 powr of_int (\<lfloor>log 2 \<bar>v\<bar>\<rfloor> + 1)"
    using floor_log_eq_powr_iff [of "\<bar>v\<bar>" 2 "\<lfloor>log 2 \<bar>v\<bar>\<rfloor>"] assms by simp
  then show ?thesis by (simp add: powr_two_int)
qed

lemma expo_unique:
  assumes "2 powi b \<le> \<bar>v\<bar>" "\<bar>v\<bar> < 2 powi (b + 1)"
  shows "\<lfloor>log 2 \<bar>v\<bar>\<rfloor> = b"
proof -
  have "0 < \<bar>v\<bar>" using assms(1) zero_less_power_int [of "2::real" b] by linarith
  moreover have "(2::real) powr of_int b \<le> \<bar>v\<bar>" "\<bar>v\<bar> < 2 powr of_int (b + 1)"
    using assms by (simp_all add: powr_two_int)
  ultimately show ?thesis
    using floor_log_eq_powr_iff [of "\<bar>v\<bar>" 2 b] by simp
qed

lemma fl_eval:
  assumes "2 powi b \<le> \<bar>v\<bar>" "\<bar>v\<bar> < 2 powi (b + 1)"
  shows "fl v = of_int (rne (v / 2 powi max (b - 52) (- 1074))) * 2 powi max (b - 52) (- 1074)"
  by (simp add: fl_def ulpExp_def expo_unique [OF assms])

lemma fl_zero [simp]: "fl 0 = 0"
  by (simp add: fl_def)

lemma ulpExp_minus [simp]: "ulpExp (- v) = ulpExp v"
  by (simp add: ulpExp_def)

lemma fl_minus: "fl (- v) = - fl v"
  by (simp add: fl_def rne_minus)

lemma fl_nonneg:
  assumes "0 \<le> v"
  shows "0 \<le> fl v"
proof -
  have "0 \<le> v / 2 powi ulpExp v" using assms by simp
  then have "rne 0 \<le> rne (v / 2 powi ulpExp v)" by (rule rne_mono)
  then show ?thesis by (simp add: fl_def)
qed

lemma ulpExp_mono:
  assumes "0 < x" "x \<le> y"
  shows "ulpExp x \<le> ulpExp y"
proof -
  have "log 2 x \<le> log 2 y" using assms by simp
  then have "\<lfloor>log 2 x\<rfloor> \<le> \<lfloor>log 2 y\<rfloor>" by (rule floor_mono)
  with assms show ?thesis by (simp add: ulpExp_def)
qed

lemma scaled_less:
  assumes "0 < x"
  shows "x / 2 powi ulpExp x < 2 ^ 53"
proof -
  let ?b = "\<lfloor>log 2 \<bar>x\<bar>\<rfloor>"
  have "x < 2 powi (?b + 1)" using binade [of x] assms by simp
  also have "(2::real) powi (?b + 1) \<le> 2 powi (ulpExp x + 53)"
    by (intro power_int_increasing) (simp_all add: ulpExp_def)
  also have "\<dots> = 2 powi ulpExp x * 2 ^ 53"
    by (simp add: power_int_add)
  finally show ?thesis by (simp add: pos_divide_less_eq mult.commute)
qed

lemma fl_upper:
  assumes "0 < x"
  shows "fl x \<le> 2 powi (ulpExp x + 53)"
proof -
  have "rne (x / 2 powi ulpExp x) \<le> rne (of_int (2 ^ 53))"
    using scaled_less [OF assms] by (intro rne_mono) simp
  then have "rne (x / 2 powi ulpExp x) \<le> 2 ^ 53" by (simp only: rne_of_int)
  then have "(of_int (rne (x / 2 powi ulpExp x)) :: real) \<le> of_int (2 ^ 53)"
    by (simp only: of_int_le_iff)
  then have "fl x \<le> 2 ^ 53 * 2 powi ulpExp x"
    unfolding fl_def by (intro mult_right_mono) simp_all
  then show ?thesis by (simp add: power_int_add mult.commute)
qed

lemma fl_lower:
  assumes "0 < y" "- 1074 < ulpExp y"
  shows "2 powi (ulpExp y + 52) \<le> fl y"
proof -
  let ?b = "\<lfloor>log 2 \<bar>y\<bar>\<rfloor>"
  have u: "ulpExp y = ?b - 52" using assms(2) by (simp add: ulpExp_def max_def split: if_splits)
  have "2 powi ?b \<le> y" using binade [of y] assms by simp
  then have "2 powi ulpExp y * 2 ^ 52 \<le> y"
    by (simp add: u power_int_diff)
  then have "of_int (2 ^ 52) \<le> y / 2 powi ulpExp y"
    by (simp add: pos_le_divide_eq mult.commute)
  then have "rne (of_int (2 ^ 52)) \<le> rne (y / 2 powi ulpExp y)"
    by (rule rne_mono)
  then have "2 ^ 52 \<le> rne (y / 2 powi ulpExp y)" by (simp only: rne_of_int)
  then have "(of_int (2 ^ 52) :: real) \<le> of_int (rne (y / 2 powi ulpExp y))"
    by (simp only: of_int_le_iff)
  then have "2 ^ 52 * 2 powi ulpExp y \<le> fl y"
    unfolding fl_def by (intro mult_right_mono) simp_all
  then show ?thesis by (simp add: power_int_add mult.commute)
qed

lemma fl_mono_pos:
  assumes "0 < x" "x \<le> y"
  shows "fl x \<le> fl y"
proof (cases "ulpExp x = ulpExp y")
  case True
  have "x / 2 powi ulpExp y \<le> y / 2 powi ulpExp y"
    using assms by (simp add: divide_right_mono)
  then have "rne (x / 2 powi ulpExp y) \<le> rne (y / 2 powi ulpExp y)" by (rule rne_mono)
  then have "(of_int (rne (x / 2 powi ulpExp y)) :: real) \<le> of_int (rne (y / 2 powi ulpExp y))"
    by (simp only: of_int_le_iff)
  then show ?thesis
    unfolding fl_def True by (intro mult_right_mono) simp_all
next
  case False
  with ulpExp_mono [OF assms] have lt: "ulpExp x + 1 \<le> ulpExp y" by simp
  moreover have "- 1074 \<le> ulpExp x" by (simp add: ulpExp_def)
  ultimately have n: "- 1074 < ulpExp y" by simp
  have "fl x \<le> 2 powi (ulpExp x + 53)" using fl_upper assms(1) by simp
  also have "\<dots> \<le> 2 powi (ulpExp y + 52)"
    using lt by (intro power_int_increasing) simp_all
  also have "\<dots> \<le> fl y" using fl_lower [OF _ n] assms by simp
  finally show ?thesis .
qed

lemma fl_mono:
  assumes "x \<le> y"
  shows "fl x \<le> fl y"
proof -
  consider "0 < x" | "x \<le> 0" "0 \<le> y" | "y < 0" by linarith
  then show ?thesis
  proof cases
    case 1
    then show ?thesis using assms by (rule fl_mono_pos)
  next
    case 2
    then have "fl x \<le> 0" using fl_nonneg [of "- x"] by (simp add: fl_minus)
    moreover have "0 \<le> fl y" using 2 by (simp add: fl_nonneg)
    ultimately show ?thesis by simp
  next
    case 3
    then have "fl (- y) \<le> fl (- x)" using assms by (intro fl_mono_pos) simp_all
    then show ?thesis by (simp add: fl_minus)
  qed
qed


lemma two_powi_less_imp:
  assumes "(2::real) powi a < 2 powi b"
  shows "a < b"
proof (rule ccontr)
  assume "\<not> a < b"
  then have "(2::real) powi b \<le> 2 powi a" by (intro power_int_increasing) simp_all
  with assms show False by simp
qed

lemma fl_dyadic:
  assumes "\<bar>m\<bar> < 2 ^ 53" "- 1074 \<le> e"
  shows "fl (of_int m * 2 powi e) = of_int m * 2 powi e"
proof (cases "m = 0")
  case True
  then show ?thesis by simp
next
  case False
  define v :: real where "v = of_int m * 2 powi e"
  define u where "u = ulpExp v"
  have nz: "v \<noteq> 0" using False by (simp add: v_def)
  have "\<bar>real_of_int m\<bar> < 2 ^ 53"
    using assms(1) by (metis of_int_abs of_int_less_numeral_power_cancel_iff)
  then have "\<bar>v\<bar> < 2 ^ 53 * 2 powi e"
    by (simp add: v_def abs_mult)
  then have "\<bar>v\<bar> < 2 powi (e + 53)" by (simp add: power_int_add mult.commute)
  with binade [OF nz] have "(2::real) powi \<lfloor>log 2 \<bar>v\<bar>\<rfloor> < 2 powi (e + 53)" by linarith
  then have "\<lfloor>log 2 \<bar>v\<bar>\<rfloor> < e + 53" by (rule two_powi_less_imp)
  with assms(2) have u: "u \<le> e" by (simp add: u_def ulpExp_def)
  define k where "k = nat (e - u)"
  have e: "e = u + int k" using u by (simp add: k_def)
  have p: "(2::real) powi e = 2 powi u * 2 ^ k"
    by (subst e) (simp add: power_int_add)
  have q: "v / 2 powi u = of_int (m * 2 ^ k)"
    by (simp add: v_def p)
  have "fl v = of_int (rne (v / 2 powi u)) * 2 powi u"
    by (simp add: fl_def u_def)
  also have "\<dots> = of_int (m * 2 ^ k) * 2 powi u"
    unfolding q by (simp only: rne_of_int)
  also have "\<dots> = of_int m * (2 powi u * 2 ^ k)" by simp
  also have "\<dots> = v" by (simp add: v_def p)
  finally show ?thesis by (simp add: v_def)
qed

lemma fl_of_int:
  assumes "\<bar>n\<bar> < 2 ^ 53"
  shows "fl (of_int n) = of_int n"
  using fl_dyadic [OF assms, of 0] by simp

lemma fl_idem_pos:
  assumes "0 < v"
  shows "fl (fl v) = fl v"
proof -
  let ?u = "ulpExp v"
  let ?k = "rne (v / 2 powi ?u)"
  have u: "- 1074 \<le> ?u" by (simp add: ulpExp_def)
  have "rne 0 \<le> ?k" using assms by (intro rne_mono) simp
  then have k0: "0 \<le> ?k" by simp
  have "?k \<le> rne (of_int (2 ^ 53))"
    using scaled_less [OF assms] by (intro rne_mono) simp
  then have k1: "?k \<le> 2 ^ 53" by (simp only: rne_of_int)
  show ?thesis
  proof (cases "?k = 2 ^ 53")
    case True
    then have "fl v = of_int 1 * 2 powi (?u + 53)"
      by (simp add: fl_def power_int_add mult.commute)
    moreover have "fl (of_int 1 * 2 powi (?u + 53)) = of_int 1 * 2 powi (?u + 53)"
      using u by (intro fl_dyadic) simp_all
    ultimately show ?thesis by simp
  next
    case False
    with k0 k1 have "\<bar>?k\<bar> < 2 ^ 53" by simp
    from fl_dyadic [OF this u] show ?thesis by (simp add: fl_def)
  qed
qed

lemma fl_idem [simp]: "fl (fl v) = fl v"
proof -
  consider "0 < v" | "v = 0" | "0 < - v" by linarith
  then show ?thesis
  proof cases
    case 1 then show ?thesis by (rule fl_idem_pos)
  next
    case 2 then show ?thesis by simp
  next
    case 3
    then have "fl (fl (- v)) = fl (- v)" by (rule fl_idem_pos)
    then show ?thesis by (simp add: fl_minus)
  qed
qed

lemma fl_error: "\<bar>fl v - v\<bar> \<le> \<bar>v\<bar> / 2 ^ 53 + 2 powi (- 1075)"
proof (cases "v = 0")
  case True
  then show ?thesis by simp
next
  case False
  let ?u = "ulpExp v"
  let ?b = "\<lfloor>log 2 \<bar>v\<bar>\<rfloor>"
  have "\<bar>of_int (rne (v / 2 powi ?u)) - v / 2 powi ?u\<bar> \<le> 1 / 2" by (rule rne_half)
  then have "\<bar>of_int (rne (v / 2 powi ?u)) - v / 2 powi ?u\<bar> * 2 powi ?u \<le> 1 / 2 * 2 powi ?u"
    by (intro mult_right_mono) simp_all
  moreover have "\<bar>of_int (rne (v / 2 powi ?u)) - v / 2 powi ?u\<bar> * 2 powi ?u = \<bar>fl v - v\<bar>"
  proof -
    have "\<bar>of_int (rne (v / 2 powi ?u)) - v / 2 powi ?u\<bar> * 2 powi ?u
        = \<bar>(of_int (rne (v / 2 powi ?u)) - v / 2 powi ?u) * 2 powi ?u\<bar>"
      by (simp add: abs_mult)
    also have "(of_int (rne (v / 2 powi ?u)) - v / 2 powi ?u) * 2 powi ?u = fl v - v"
      by (simp add: fl_def algebra_simps)
    finally show ?thesis .
  qed
  ultimately have h: "\<bar>fl v - v\<bar> \<le> 2 powi ?u / 2" by simp
  have "(2::real) powi ?u / 2 \<le> \<bar>v\<bar> / 2 ^ 53 + 2 powi (- 1075)"
  proof (cases "?b - 52 \<le> - 1074")
    case True
    then have "?u = - 1074" by (simp add: ulpExp_def)
    then have "(2::real) powi ?u / 2 = 2 powi (- 1075)"
      using power_int_add [of "2::real" "- 1075" 1] by simp
    then show ?thesis by simp
  next
    case False
    then have "?u = ?b - 52" by (simp add: ulpExp_def)
    then have "(2::real) powi ?u / 2 = 2 powi ?b / 2 ^ 53"
      by (simp add: power_int_diff)
    also have "\<dots> \<le> \<bar>v\<bar> / 2 ^ 53"
      using binade [OF \<open>v \<noteq> 0\<close>] by (simp add: divide_right_mono)
    finally show ?thesis by simp
  qed
  with h show ?thesis by linarith
qed

lemma fl_11_10: "fl (11 / 10) = 4953959590107546 / 2 ^ 52"
  by (subst fl_eval [of 0]) (simp_all add: rne_def Let_def)

lemma fl_2_10: "fl (2 / 10) = 7205759403792794 / 2 ^ 55"
  by (subst fl_eval [of "- 3"]) (simp_all add: rne_def Let_def)

lemma fl_5_1000: "fl (5 / 1000) = 5764607523034235 / 2 ^ 60"
  by (subst fl_eval [of "- 8"]) (simp_all add: rne_def Let_def)

lemma fl_numerals [simp]: "fl 1 = 1" "fl 2 = 2" "fl 450 = 450"
  using fl_of_int [of 1] fl_of_int [of 2] fl_of_int [of 450] by simp_all

lemma fl_ge_one:
  assumes "1 \<le> v"
  shows "1 \<le> fl v"
  using fl_mono [OF assms] by simp

lemma moderate_of_int:
  assumes "\<bar>n\<bar> < 2 ^ 53"
  shows "moderate (of_int n)"
proof -
  have "\<bar>real_of_int n\<bar> < 2 ^ 53"
    using assms by (metis of_int_abs of_int_less_numeral_power_cancel_iff)
  moreover have "(2::real) ^ 53 \<le> 2 ^ 1000" by (intro power_increasing) simp_all
  ultimately show ?thesis
    using fl_of_int [OF assms] by (simp add: moderate_def)
qed

section \<open>Zoom distance\<close>

lemma clamp_range: "lo \<le> hi \<Longrightarrow> lo \<le> clamp v lo hi \<and> clamp v lo hi \<le> hi"
  by (simp add: clamp_def min_def max_def)

lemma distance_updateDistance:
  "distance (updateDistance next s) = clamp next MIN_DISTANCE MAX_DISTANCE"
  by (simp add: updateDistance_def Let_def split: option.split)

lemma camera_updateDistance:
  "camera (updateDistance next s) =
     map_option (\<lambda>c. c\<lparr>position := (0, 0, clamp next MIN_DISTANCE MAX_DISTANCE)\<rparr>) (camera s)"
  by (simp add: updateDistance_def Let_def split: option.split)

lemma orientation_updateDistance:
  "currentYaw (updateDistance next s) = currentYaw s"
  "currentPitch (updateDistance next s) = currentPitch s"
  by (simp_all add: updateDistance_def Let_def split: option.split)

text \<open>
  C8.  For every input \<open>next\<close>, \<open>updateDistance\<close> (the spec's \<open>setDistance\<close>) stores
  \<open>clamp(next, 1.8, 4.5)\<close>, that is \<open>min(4.5, max(1.8, next))\<close>: \<open>next\<close> itself when it lies
  between 1.8 and 4.5, 1.8 when it is below and 4.5 when it is above.  The stored distance
  therefore always lies between 1.8 and 4.5, and it is pushed to the camera's position
  when there is a camera; with 1.0 the stored distance is 1.8 and with 10 it is 4.5.
\<close>

theorem updateDistance_clamps:
  "distance (updateDistance next s) = clamp next 1.8 4.5
   \<and> 1.8 \<le> distance (updateDistance next s)
   \<and> distance (updateDistance next s) \<le> 4.5
   \<and> camera (updateDistance next s) =
        map_option (\<lambda>c. c\<lparr>position := (0, 0, clamp next 1.8 4.5)\<rparr>) (camera s)
   \<and> distance (updateDistance 1.0 s) = 1.8
   \<and> distance (updateDistance 10 s) = 4.5
   \<and> distance (updateDistance next s) = min 4.5 (max 1.8 next)
   \<and> (1.8 \<le> next \<and> next \<le> 4.5 \<longrightarrow> distance (updateDistance next s) = next)
   \<and> (next \<le> 1.8 \<longrightarrow> distance (updateDistance next s) = 1.8)
   \<and> (4.5 \<le> next \<longrightarrow> distance (updateDistance next s) = 4.5)
   \<and> camera (updateDistance next s) =
        map_option (\<lambda>c. c\<lparr>position := (0, 0, min 4.5 (max 1.8 next))\<rparr>) (camera s)"
proof -
  have c: "clamp next 1.8 4.5 = min 4.5 (max 1.8 next)"
    by (simp add: clamp_def)
  have d: "distance (updateDistance next s) = clamp next 1.8 4.5"
    "distance (updateDistance 1.0 s) = 1.8" "distance (updateDistance 10 s) = 4.5"
    by (simp_all add: distance_updateDistance MIN_DISTANCE_def MAX_DISTANCE_def clamp_def)
  have m: "camera (updateDistance next s) =
        map_option (\<lambda>c. c\<lparr>position := (0, 0, clamp next 1.8 4.5)\<rparr>) (camera s)"
    by (simp add: camera_updateDistance MIN_DISTANCE_def MAX_DISTANCE_def)
  have r: "1.8 \<le> min 4.5 (max 1.8 next)" "min 4.5 (max 1.8 next) \<le> 4.5"
    "1.8 \<le> next \<and> next \<le> 4.5 \<longrightarrow> min 4.5 (max 1.8 next) = next"
    "next \<le> 1.8 \<longrightarrow> min 4.5 (max 1.8 next) = 1.8"
    "4.5 \<le> next \<longrightarrow> min 4.5 (max 1.8 next) = 4.5"
    by (simp_all add: min_def max_def)
  show ?thesis
    unfolding d m c using r by simp
qed

theorem updateDistance_clamps_witness:
  "(1.8::real) \<le> 3 \<and> (3::real) \<le> 4.5
   \<and> distance (updateDistance 3 (newViewer 1)) = 3
   \<and> camera (updateDistance 3 (newViewer 1)) = Some \<lparr>position = (0, 0, 3)\<rparr>
   \<and> (1::real) \<le> 1.8 \<and> distance (updateDistance 1 (newViewer 1)) = 1.8
   \<and> (4.5::real) \<le> 7 \<and> distance (updateDistance 7 (newViewer 1)) = 4.5"
  using updateDistance_clamps [of 3 "newViewer 1"] updateDistance_clamps [of 1 "newViewer 1"]
    updateDistance_clamps [of 7 "newViewer 1"]
  by (simp add: newViewer_def)

section \<open>Disposal\<close>

text \<open>
  C9.  \<open>dispose\<close> is idempotent: a second call changes nothing the first one left, the
  animation handle is cleared after each call and the frame it named is no longer
  requested, and renderer, resize observer and the five listeners are gone.  No step of
  \<open>dispose\<close> can raise: every call on a nullable field is guarded.
\<close>

theorem dispose_idempotent:
  "dispose (dispose s) = dispose s
   \<and> animationHandle (dispose s) = None
   \<and> animationHandle (dispose (dispose s)) = None
   \<and> scheduledFrames (dispose s) = scheduledFrames s - set_option (animationHandle s)
   \<and> scheduledFrames (dispose (dispose s)) = scheduledFrames (dispose s)
   \<and> \<not> renderer (dispose s) \<and> \<not> resizeObserver (dispose s)
   \<and> listeners (dispose s)
        \<inter> {(''pointerdown'', OnPointerDown), (''pointermove'', OnPointerMove),
           (''pointerup'', OnPointerUp), (''pointercancel'', OnPointerUp),
           (''wheel'', OnWheel)} = {}"
  by (auto simp add: dispose_def stopRenderLoop_def Let_def split: option.split)

section \<open>Snap animation\<close>

lemma ease_mono:
  fixes t1 t2 :: real
  assumes "0 \<le> t1" "t1 \<le> t2" "t2 \<le> 1"
  shows "t1 * (2 - t1) \<le> t2 * (2 - t2)"
proof -
  have "0 \<le> (t2 - t1) * (2 - t1 - t2)"
    using assms by (intro mult_nonneg_nonneg) simp_all
  then show ?thesis by (simp add: algebra_simps)
qed

lemma updateSnap_idle: "\<not> active (snap s) \<Longrightarrow> updateSnap now s = s"
  by (simp add: updateSnap_def)

lemma updateSnap_active:
  assumes "active (snap s)"
  shows "currentYaw (updateSnap now s) =
           fl (startYaw (snap s) + fl (fl (targetYaw (snap s) - startYaw (snap s))
             * fl (min 1 (max 0 (fl (fl (now - startTime (snap s)) / duration (snap s))))
                   * fl (2 - min 1 (max 0 (fl (fl (now - startTime (snap s))
                                                 / duration (snap s))))))))"
    and "currentPitch (updateSnap now s) =
           fl (startPitch (snap s) + fl (fl (targetPitch (snap s) - startPitch (snap s))
             * fl (min 1 (max 0 (fl (fl (now - startTime (snap s)) / duration (snap s))))
                   * fl (2 - min 1 (max 0 (fl (fl (now - startTime (snap s))
                                                 / duration (snap s))))))))"
    and "snap (updateSnap now s) =
           (snap s)\<lparr>active :=
              \<not> 1 \<le> min 1 (max 0 (fl (fl (now - startTime (snap s)) / duration (snap s))))\<rparr>"
  using assms
  by (simp_all add: updateSnap_def Let_def updateModelRotation_def lerp_def clamp_def
        dadd_def dsub_def dmul_def ddiv_def split: option.split)

lemma tick_start:
  "min 1 (max 0 (fl (fl (now - now) / d))) = (0::real)"
  by simp

lemma tick_end:
  assumes "st + 450 \<le> now"
  shows "min 1 (max 0 (fl (fl (now - st) / 450))) = (1::real)"
proof -
  have "fl 450 \<le> fl (now - st)" using assms by (intro fl_mono) simp
  then have "1 \<le> fl (now - st) / 450" by simp
  then have "1 \<le> fl (fl (now - st) / 450)" by (rule fl_ge_one)
  then show ?thesis by simp
qed

lemma round_trip_error:
  "\<bar>fl (a + fl (b - a)) - b\<bar>
     \<le> (\<bar>b - a\<bar> + \<bar>a + fl (b - a)\<bar>) / 2 ^ 53 + 2 powi (- 1074)"
proof -
  have e1: "\<bar>fl (b - a) - (b - a)\<bar> \<le> \<bar>b - a\<bar> / 2 ^ 53 + 2 powi (- 1075)"
    by (rule fl_error)
  have e2: "\<bar>fl (a + fl (b - a)) - (a + fl (b - a))\<bar>
              \<le> \<bar>a + fl (b - a)\<bar> / 2 ^ 53 + 2 powi (- 1075)"
    by (rule fl_error)
  have "(2::real) powi (- 1075) + 2 powi (- 1075) = 2 powi (- 1074)"
    using power_int_add [of "2::real" "- 1075" 1] by simp
  moreover have "\<bar>fl (a + fl (b - a)) - b\<bar>
      \<le> \<bar>fl (a + fl (b - a)) - (a + fl (b - a))\<bar> + \<bar>fl (b - a) - (b - a)\<bar>"
    by linarith
  ultimately show ?thesis
    using e1 e2 by (simp add: add_divide_distrib)
qed

text \<open>
  The rounded easing values are not monotone: the double \<open>1 - 2\<^sup>-\<^sup>5\<^sup>2\<close> is below the
  double \<open>1 - 2\<^sup>-\<^sup>5\<^sup>3\<close>, yet its easing value is 1 and that of the larger one is
  \<open>1 - 2\<^sup>-\<^sup>5\<^sup>3\<close>.
\<close>

lemma ease_rounded_not_monotone:
  "(4503599627370495 / 2 ^ 52 :: real) < 9007199254740991 / 2 ^ 53"
  "dmul (4503599627370495 / 2 ^ 52) (dsub 2 (4503599627370495 / 2 ^ 52)) = 1"
  "dmul (9007199254740991 / 2 ^ 53) (dsub 2 (9007199254740991 / 2 ^ 53))
     = 9007199254740991 / 2 ^ 53"
proof -
  show "(4503599627370495 / 2 ^ 52 :: real) < 9007199254740991 / 2 ^ 53"
    by simp
  have a: "fl (2 - 4503599627370495 / 2 ^ 52) = 4503599627370497 / 2 ^ 52"
    by (subst fl_eval [of 0]) (simp_all add: rne_def Let_def)
  have b: "fl (4503599627370495 / 2 ^ 52 * (4503599627370497 / 2 ^ 52)) = 1"
    by (subst fl_eval [of "- 1"]) (simp_all add: rne_def Let_def)
  show "dmul (4503599627370495 / 2 ^ 52) (dsub 2 (4503599627370495 / 2 ^ 52)) = 1"
    unfolding dmul_def dsub_def a b by (rule refl)
  have c: "fl (2 - 9007199254740991 / 2 ^ 53) = 1"
    by (subst fl_eval [of 0]) (simp_all add: rne_def Let_def)
  have d: "fl (9007199254740991 / 2 ^ 53 * 1) = 9007199254740991 / 2 ^ 53"
    by (subst fl_eval [of "- 1"]) (simp_all add: rne_def Let_def)
  show "dmul (9007199254740991 / 2 ^ 53) (dsub 2 (9007199254740991 / 2 ^ 53))
     = 9007199254740991 / 2 ^ 53"
    unfolding dmul_def dsub_def c d by (rule refl)
qed

text \<open>
  C5 (as the code has it).  \<open>updateSnap\<close> (the spec's \<open>SnapAnimator.tick\<close>) returns the
  viewer unchanged when the snap is idle.  When it is active (with the duration 450 that
  the code always stores, and times and angles that are moderate doubles), with
  \<open>t = clamp((now - start) / 450, 0, 1)\<close> and \<open>ease = t * (2 - t)\<close>, yaw and pitch become
  \<open>start + (target - start) * ease\<close>, each on its own and every operation rounded as the
  machine rounds it, and the snap stays active exactly when \<open>t < 1\<close>.  At \<open>now = start\<close>
  the orientation is the one captured at the start (a tick at the very time of
  \<open>startSnapTo\<close> leaves yaw and pitch as they were) and the snap stays active.  From
  \<open>start + 450\<close> on, \<open>t\<close> and \<open>ease\<close> are 1, the snap is idle, and yaw and pitch are
  \<open>start + (target - start)\<close> as rounded, which is within two roundings of the target.
  The easing expression gives 0 at 0 and 1 at 1, and as a function of a real \<open>t\<close> it is
  non-decreasing on the unit interval (its rounded values follow it only up to a rounding,
  as \<open>ease_rounded_not_monotone\<close> shows).
\<close>

theorem updateSnap_tick:
  "(\<not> active (snap s) \<longrightarrow> updateSnap now s = s)
   \<and> (active (snap s) \<and> duration (snap s) = 450
        \<and> moderate now \<and> moderate (startTime (snap s))
        \<and> moderate (startYaw (snap s)) \<and> moderate (targetYaw (snap s))
        \<and> moderate (startPitch (snap s)) \<and> moderate (targetPitch (snap s)) \<longrightarrow>
        (let t = min 1 (max 0 (fl (fl (now - startTime (snap s)) / 450)));
             ease = fl (t * fl (2 - t))
         in currentYaw (updateSnap now s)
              = fl (startYaw (snap s)
                     + fl (fl (targetYaw (snap s) - startYaw (snap s)) * ease))
          \<and> currentPitch (updateSnap now s)
              = fl (startPitch (snap s)
                     + fl (fl (targetPitch (snap s) - startPitch (snap s)) * ease))
          \<and> (active (snap (updateSnap now s)) \<longleftrightarrow> \<not> 1 \<le> t))
        \<and> (now = startTime (snap s) \<longrightarrow>
              currentYaw (updateSnap now s) = startYaw (snap s)
            \<and> currentPitch (updateSnap now s) = startPitch (snap s)
            \<and> active (snap (updateSnap now s)))
        \<and> (startTime (snap s) + 450 \<le> now \<longrightarrow>
              currentYaw (updateSnap now s)
                = fl (startYaw (snap s) + fl (targetYaw (snap s) - startYaw (snap s)))
            \<and> currentPitch (updateSnap now s)
                = fl (startPitch (snap s) + fl (targetPitch (snap s) - startPitch (snap s)))
            \<and> \<bar>currentYaw (updateSnap now s) - targetYaw (snap s)\<bar>
                \<le> (\<bar>targetYaw (snap s) - startYaw (snap s)\<bar>
                    + \<bar>startYaw (snap s) + fl (targetYaw (snap s) - startYaw (snap s))\<bar>)
                   / 2 ^ 53 + 2 powi (- 1074)
            \<and> \<bar>currentPitch (updateSnap now s) - targetPitch (snap s)\<bar>
                \<le> (\<bar>targetPitch (snap s) - startPitch (snap s)\<bar>
                    + \<bar>startPitch (snap s)
                       + fl (targetPitch (snap s) - startPitch (snap s))\<bar>)
                   / 2 ^ 53 + 2 powi (- 1074)
            \<and> \<not> active (snap (updateSnap now s))))
   \<and> (moderate (currentYaw s) \<and> moderate (currentPitch s)
        \<and> moderate y \<and> moderate p \<and> moderate now \<longrightarrow>
          currentYaw (updateSnap now (startSnapTo y p now s)) = currentYaw s
        \<and> currentPitch (updateSnap now (startSnapTo y p now s)) = currentPitch s)
   \<and> fl (0 * fl (2 - 0)) = 0 \<and> fl (1 * fl (2 - 1)) = 1
   \<and> (\<forall>t1 t2::real. 0 \<le> t1 \<and> t1 \<le> t2 \<and> t2 \<le> 1 \<longrightarrow> t1 * (2 - t1) \<le> t2 * (2 - t2))"
proof -
  have idle: "\<not> active (snap s) \<longrightarrow> updateSnap now s = s"
    by (simp add: updateSnap_idle)
  have act: "active (snap s) \<and> duration (snap s) = 450
        \<and> moderate now \<and> moderate (startTime (snap s))
        \<and> moderate (startYaw (snap s)) \<and> moderate (targetYaw (snap s))
        \<and> moderate (startPitch (snap s)) \<and> moderate (targetPitch (snap s)) \<longrightarrow>
        (let t = min 1 (max 0 (fl (fl (now - startTime (snap s)) / 450)));
             ease = fl (t * fl (2 - t))
         in currentYaw (updateSnap now s)
              = fl (startYaw (snap s)
                     + fl (fl (targetYaw (snap s) - startYaw (snap s)) * ease))
          \<and> currentPitch (updateSnap now s)
              = fl (startPitch (snap s)
                     + fl (fl (targetPitch (snap s) - startPitch (snap s)) * ease))
          \<and> (active (snap (updateSnap now s)) \<longleftrightarrow> \<not> 1 \<le> t))
        \<and> (now = startTime (snap s) \<longrightarrow>
              currentYaw (updateSnap now s) = startYaw (snap s)
            \<and> currentPitch (updateSnap now s) = startPitch (snap s)
            \<and> active (snap (updateSnap now s)))
        \<and> (startTime (snap s) + 450 \<le> now \<longrightarrow>
              currentYaw (updateSnap now s)
                = fl (startYaw (snap s) + fl (targetYaw (snap s) - startYaw (snap s)))
            \<and> currentPitch (updateSnap now s)
                = fl (startPitch (snap s) + fl (targetPitch (snap s) - startPitch (snap s)))
            \<and> \<bar>currentYaw (updateSnap now s) - targetYaw (snap s)\<bar>
                \<le> (\<bar>targetYaw (snap s) - startYaw (snap s)\<bar>
                    + \<bar>startYaw (snap s) + fl (targetYaw (snap s) - startYaw (snap s))\<bar>)
                   / 2 ^ 53 + 2 powi (- 1074)
            \<and> \<bar>currentPitch (updateSnap now s) - targetPitch (snap s)\<bar>
                \<le> (\<bar>targetPitch (snap s) - startPitch (snap s)\<bar>
                    + \<bar>startPitch (snap s)
                       + fl (targetPitch (snap s) - startPitch (snap s))\<bar>)
                   / 2 ^ 53 + 2 powi (- 1074)
            \<and> \<not> active (snap (updateSnap now s)))"
  proof (intro impI, elim conjE)
    assume a: "active (snap s)" and d: "duration (snap s) = 450"
      and sy: "moderate (startYaw (snap s))" and sp: "moderate (startPitch (snap s))"
    note u = updateSnap_active [OF a, of now, unfolded d]
    have formula: "let t = min 1 (max 0 (fl (fl (now - startTime (snap s)) / 450)));
             ease = fl (t * fl (2 - t))
         in currentYaw (updateSnap now s)
              = fl (startYaw (snap s)
                     + fl (fl (targetYaw (snap s) - startYaw (snap s)) * ease))
          \<and> currentPitch (updateSnap now s)
              = fl (startPitch (snap s)
                     + fl (fl (targetPitch (snap s) - startPitch (snap s)) * ease))
          \<and> (active (snap (updateSnap now s)) \<longleftrightarrow> \<not> 1 \<le> t)"
      unfolding Let_def u by simp
    have first: "now = startTime (snap s) \<longrightarrow>
              currentYaw (updateSnap now s) = startYaw (snap s)
            \<and> currentPitch (updateSnap now s) = startPitch (snap s)
            \<and> active (snap (updateSnap now s))"
    proof
      assume n: "now = startTime (snap s)"
      have t: "min 1 (max 0 (fl (fl (now - startTime (snap s)) / 450))) = (0::real)"
        unfolding n by (rule tick_start)
      show "currentYaw (updateSnap now s) = startYaw (snap s)
            \<and> currentPitch (updateSnap now s) = startPitch (snap s)
            \<and> active (snap (updateSnap now s))"
        unfolding u t using sy sp a by (simp add: moderate_def)
    qed
    have last: "startTime (snap s) + 450 \<le> now \<longrightarrow>
              currentYaw (updateSnap now s)
                = fl (startYaw (snap s) + fl (targetYaw (snap s) - startYaw (snap s)))
            \<and> currentPitch (updateSnap now s)
                = fl (startPitch (snap s) + fl (targetPitch (snap s) - startPitch (snap s)))
            \<and> \<bar>currentYaw (updateSnap now s) - targetYaw (snap s)\<bar>
                \<le> (\<bar>targetYaw (snap s) - startYaw (snap s)\<bar>
                    + \<bar>startYaw (snap s) + fl (targetYaw (snap s) - startYaw (snap s))\<bar>)
                   / 2 ^ 53 + 2 powi (- 1074)
            \<and> \<bar>currentPitch (updateSnap now s) - targetPitch (snap s)\<bar>
                \<le> (\<bar>targetPitch (snap s) - startPitch (snap s)\<bar>
                    + \<bar>startPitch (snap s)
                       + fl (targetPitch (snap s) - startPitch (snap s))\<bar>)
                   / 2 ^ 53 + 2 powi (- 1074)
            \<and> \<not> active (snap (updateSnap now s))"
    proof
      assume n: "startTime (snap s) + 450 \<le> now"
      have t: "min 1 (max 0 (fl (fl (now - startTime (snap s)) / 450))) = (1::real)"
        using n by (rule tick_end)
      have y: "currentYaw (updateSnap now s)
                = fl (startYaw (snap s) + fl (targetYaw (snap s) - startYaw (snap s)))"
        and p: "currentPitch (updateSnap now s)
                = fl (startPitch (snap s) + fl (targetPitch (snap s) - startPitch (snap s)))"
        and i: "\<not> active (snap (updateSnap now s))"
        unfolding u t by simp_all
      show "currentYaw (updateSnap now s)
                = fl (startYaw (snap s) + fl (targetYaw (snap s) - startYaw (snap s)))
            \<and> currentPitch (updateSnap now s)
                = fl (startPitch (snap s) + fl (targetPitch (snap s) - startPitch (snap s)))
            \<and> \<bar>currentYaw (updateSnap now s) - targetYaw (snap s)\<bar>
                \<le> (\<bar>targetYaw (snap s) - startYaw (snap s)\<bar>
                    + \<bar>startYaw (snap s) + fl (targetYaw (snap s) - startYaw (snap s))\<bar>)
                   / 2 ^ 53 + 2 powi (- 1074)
            \<and> \<bar>currentPitch (updateSnap now s) - targetPitch (snap s)\<bar>
                \<le> (\<bar>targetPitch (snap s) - startPitch (snap s)\<bar>
                    + \<bar>startPitch (snap s)
                       + fl (targetPitch (snap s) - startPitch (snap s))\<bar>)
                   / 2 ^ 53 + 2 powi (- 1074)
            \<and> \<not> active (snap (updateSnap now s))"
        unfolding y p
        using i round_trip_error [of "startYaw (snap s)" "targetYaw (snap s)"]
          round_trip_error [of "startPitch (snap s)" "targetPitch (snap s)"]
        by blast
    qed
    from formula first last
    show "(let t = min 1 (max 0 (fl (fl (now - startTime (snap s)) / 450)));
             ease = fl (t * fl (2 - t))
         in currentYaw (updateSnap now s)
              = fl (startYaw (snap s)
                     + fl (fl (targetYaw (snap s) - startYaw (snap s)) * ease))
          \<and> currentPitch (updateSnap now s)
              = fl (startPitch (snap s)
                     + fl (fl (targetPitch (snap s) - startPitch (snap s)) * ease))
          \<and> (active (snap (updateSnap now s)) \<longleftrightarrow> \<not> 1 \<le> t))
        \<and> (now = startTime (snap s) \<longrightarrow>
              currentYaw (updateSnap now s) = startYaw (snap s)
            \<and> currentPitch (updateSnap now s) = startPitch (snap s)
            \<and> active (snap (updateSnap now s)))
        \<and> (startTime (snap s) + 450 \<le> now \<longrightarrow>
              currentYaw (updateSnap now s)
                = fl (startYaw (snap s) + fl (targetYaw (snap s) - startYaw (snap s)))
            \<and> currentPitch (updateSnap now s)
                = fl (startPitch (snap s) + fl (targetPitch (snap s) - startPitch (snap s)))
            \<and> \<bar>currentYaw (updateSnap now s) - targetYaw (snap s)\<bar>
                \<le> (\<bar>targetYaw (snap s) - startYaw (snap s)\<bar>
                    + \<bar>startYaw (snap s) + fl (targetYaw (snap s) - startYaw (snap s))\<bar>)
                   / 2 ^ 53 + 2 powi (- 1074)
            \<and> \<bar>currentPitch (updateSnap now s) - targetPitch (snap s)\<bar>
                \<le> (\<bar>targetPitch (snap s) - startPitch (snap s)\<bar>
                    + \<bar>startPitch (snap s)
                       + fl (targetPitch (snap s) - startPitch (snap s))\<bar>)
                   / 2 ^ 53 + 2 powi (- 1074)
            \<and> \<not> active (snap (updateSnap now s)))"
      by blast
  qed
  have start: "moderate (currentYaw s) \<and> moderate (currentPitch s)
        \<and> moderate y \<and> moderate p \<and> moderate now \<longrightarrow>
          currentYaw (updateSnap now (startSnapTo y p now s)) = currentYaw s
        \<and> currentPitch (updateSnap now (startSnapTo y p now s)) = currentPitch s"
  proof (intro impI, elim conjE)
    assume cy: "moderate (currentYaw s)" and cp: "moderate (currentPitch s)"
    have a: "active (snap (startSnapTo y p now s))" by (simp add: startSnapTo_def)
    have st: "startTime (snap (startSnapTo y p now s)) = now"
      "startYaw (snap (startSnapTo y p now s)) = currentYaw s"
      "startPitch (snap (startSnapTo y p now s)) = currentPitch s"
      by (simp_all add: startSnapTo_def)
    show "currentYaw (updateSnap now (startSnapTo y p now s)) = currentYaw s
        \<and> currentPitch (updateSnap now (startSnapTo y p now s)) = currentPitch s"
      unfolding updateSnap_active(1,2) [OF a] st tick_start
      using cy cp by (simp add: moderate_def)
  qed
  have ease: "fl (0 * fl (2 - 0)) = 0 \<and> fl (1 * fl (2 - 1)) = 1
   \<and> (\<forall>t1 t2::real. 0 \<le> t1 \<and> t1 \<le> t2 \<and> t2 \<le> 1 \<longrightarrow> t1 * (2 - t1) \<le> t2 * (2 - t2))"
    by (simp add: ease_mono)
  from idle act start ease show ?thesis by blast
qed

lemma moderate_small [simp]:
  "moderate 0" "moderate 1" "moderate 2" "moderate 100" "moderate 550" "moderate 800"
  using moderate_of_int [of 0] moderate_of_int [of 1] moderate_of_int [of 2]
    moderate_of_int [of 100] moderate_of_int [of 550] moderate_of_int [of 800]
  by simp_all

theorem updateSnap_tick_witness:
  "active (snap (startSnapTo 2 1 100 (newViewer 1)))
   \<and> duration (snap (startSnapTo 2 1 100 (newViewer 1))) = 450
   \<and> moderate 550 \<and> moderate 100 \<and> moderate 0 \<and> moderate 2 \<and> moderate 1
   \<and> (100::real) + 450 \<le> 550
   \<and> currentYaw (updateSnap 550 (startSnapTo 2 1 100 (newViewer 1))) = 2
   \<and> currentPitch (updateSnap 550 (startSnapTo 2 1 100 (newViewer 1))) = 1
   \<and> \<not> active (snap (updateSnap 550 (startSnapTo 2 1 100 (newViewer 1))))
   \<and> currentYaw (updateSnap 100 (startSnapTo 2 1 100 (newViewer 1))) = 0
   \<and> active (snap (updateSnap 100 (startSnapTo 2 1 100 (newViewer 1))))
   \<and> \<not> active (snap (newViewer 1)) \<and> updateSnap 550 (newViewer 1) = newViewer 1"
proof -
  let ?s = "startSnapTo 2 1 100 (newViewer 1)"
  have f: "active (snap ?s)" "duration (snap ?s) = 450" "startTime (snap ?s) = 100"
    "startYaw (snap ?s) = 0" "targetYaw (snap ?s) = 2"
    "startPitch (snap ?s) = 0" "targetPitch (snap ?s) = 1"
    "\<not> active (snap (newViewer 1))"
    by (simp_all add: startSnapTo_def newViewer_def)
  show ?thesis
    using updateSnap_tick [of ?s 550] updateSnap_tick [of ?s 100]
      updateSnap_tick [of "newViewer 1" 550] f
    by simp
qed

text \<open>
  C5 (as stated) fails at the end of a snap: from yaw 1.1 to a preset of yaw 0.2 (the
  doubles nearest to these decimals), a tick at \<open>start + 450\<close> leaves yaw at
  \<open>7205759403792792 / 2\<^sup>5\<^sup>5\<close>, printed \<open>0.19999999999999996\<close>, while the target is
  \<open>7205759403792794 / 2\<^sup>5\<^sup>5\<close>.
\<close>

theorem snap_end_not_target_counterexample:
  "currentYaw (updateSnap 550
      (startSnapTo (fl (2 / 10)) 0 100 ((newViewer 1)\<lparr>currentYaw := fl (11 / 10)\<rparr>)))
     \<noteq> fl (2 / 10)"
proof -
  let ?s = "startSnapTo (fl (2 / 10)) 0 100 ((newViewer 1)\<lparr>currentYaw := fl (11 / 10)\<rparr>)"
  have f: "active (snap ?s)" "duration (snap ?s) = 450" "startTime (snap ?s) = 100"
    "startYaw (snap ?s) = fl (11 / 10)" "targetYaw (snap ?s) = fl (2 / 10)"
    by (simp_all add: startSnapTo_def newViewer_def)
  have t: "min 1 (max 0 (fl (fl (550 - 100) / 450))) = (1::real)"
    by (rule tick_end) simp
  have e: "fl (1 * fl (2 - 1)) = 1"
    by simp
  have d: "fl (7205759403792794 / 2 ^ 55 - 4953959590107546 / 2 ^ 52)
             = - (8106479329266894 / 2 ^ 53)"
    by (subst fl_eval [of "- 1"]) (simp_all add: rne_def Let_def)
  have m: "fl (- (8106479329266894 / 2 ^ 53) * 1) = - (8106479329266894 / 2 ^ 53)"
    by (subst fl_eval [of "- 1"]) (simp_all add: rne_def Let_def)
  have r: "fl (4953959590107546 / 2 ^ 52 + - (8106479329266894 / 2 ^ 53))
             = 7205759403792792 / 2 ^ 55"
    by (subst fl_eval [of "- 3"]) (simp_all add: rne_def Let_def)
  have "currentYaw (updateSnap 550 ?s)
          = fl (fl (11 / 10) + fl (fl (fl (2 / 10) - fl (11 / 10)) * fl (1 * fl (2 - 1))))"
    unfolding updateSnap_active(1) [OF f(1)] f(2-5) t by (rule refl)
  also have "\<dots> = 7205759403792792 / 2 ^ 55"
    unfolding e fl_11_10 fl_2_10 d m r by (rule refl)
  finally show ?thesis
    unfolding fl_2_10 by simp
qed

section \<open>Material variants\<close>

lemma rel_traverse:
  "(\<And>x. R x (f x)) \<Longrightarrow> rel_object3d R t (traverse f t)"
  unfolding traverse_def
  by (simp add: object3d.rel_map object3d.rel_refl)

lemma onGraph_Some:
  "modelGroup s = Some g \<Longrightarrow>
     onGraph f s = s\<lparr>modelGroup := Some (g\<lparr>graph := traverse f (graph g)\<rparr>)\<rparr>"
  by (simp add: onGraph_def)

lemma setVariant_blank:
  assumes "modelGroup s = Some g" "trim nm = []"
  shows "setVariant nm s = restoreOriginalMaterials (s\<lparr>currentVariant := None\<rparr>)"
  using assms by (simp add: setVariant_def)

lemma setVariant_unmatched:
  assumes "modelGroup s = Some g" "variantMaterialsKHR s (trim nm) = None"
    "variantMaterialsByName s (trim nm) = None"
  shows "setVariant nm s = restoreOriginalMaterials (s\<lparr>currentVariant := None\<rparr>)"
  using assms by (simp add: setVariant_def Let_def)

lemma setVariant_KHR:
  assumes "modelGroup s = Some g" "trim nm \<noteq> []"
    "variantMaterialsKHR s (trim nm) = Some vm"
  shows "setVariant nm s
           = (applyVariantFromKHR (trim nm) s)\<lparr>currentVariant := Some (trim nm)\<rparr>"
  using assms by (simp add: setVariant_def Let_def)

lemma setVariant_ByName:
  assumes "modelGroup s = Some g" "trim nm \<noteq> []"
    "variantMaterialsKHR s (trim nm) = None"
    "variantMaterialsByName s (trim nm) = Some vm"
  shows "setVariant nm s
           = (applyVariantFromName (trim nm) s)\<lparr>currentVariant := Some (trim nm)\<rparr>"
  using assms by (simp add: setVariant_def Let_def)

lemma trim_blank: "trim str = [] \<longleftrightarrow> (\<forall>c\<in>set str. isWhiteSpace c)"
proof -
  have "trim str = [] \<longleftrightarrow> (\<forall>c\<in>set (dropWhile isWhiteSpace str). isWhiteSpace c)"
    by (simp add: trim_def dropWhile_eq_Nil_conv)
  also have "\<dots> \<longleftrightarrow> dropWhile isWhiteSpace str = []"
  proof
    assume all: "\<forall>c\<in>set (dropWhile isWhiteSpace str). isWhiteSpace c"
    show "dropWhile isWhiteSpace str = []"
    proof (rule ccontr)
      assume ne: "dropWhile isWhiteSpace str \<noteq> []"
      then have "\<not> isWhiteSpace (hd (dropWhile isWhiteSpace str))" by (rule hd_dropWhile)
      moreover have "hd (dropWhile isWhiteSpace str) \<in> set (dropWhile isWhiteSpace str)"
        using ne by (rule hd_in_set)
      ultimately show False using all by blast
    qed
  next
    assume "dropWhile isWhiteSpace str = []"
    then show "\<forall>c\<in>set (dropWhile isWhiteSpace str). isWhiteSpace c"
      by (simp only: list.set ball_empty)
  qed
  also have "\<dots> \<longleftrightarrow> (\<forall>c\<in>set str. isWhiteSpace c)"
    by (simp add: dropWhile_eq_Nil_conv)
  finally show ?thesis .
qed

text \<open>
  C2 (as the code has it).  Let a model group be present and let the name, as
  \<open>setVariant\<close> looks it up (trimmed by \<open>String.prototype.trim\<close>, and not blank), be a key
  of the structured table.  Then every node of the graph
  that is no mesh is left as it is, and every mesh gets the table's substitute for its
  uuid when there is one and otherwise its original material (its captured entry of
  \<open>originalMaterials\<close>; a mesh without such an entry keeps its material).  If the name is
  a key of the naming table only, every mesh gets the table's substitute when there is one
  and otherwise keeps its current material.  \<^const>\<open>rel_object3d\<close> relates the nodes of
  the graph before and after, position by position.
\<close>

theorem setVariant_fallbacks:
  assumes "modelGroup s = Some g" and "trim nm \<noteq> []"
  shows "(\<forall>vm. variantMaterialsKHR s (trim nm) = Some vm \<longrightarrow>
           (\<exists>g'. modelGroup (setVariant nm s) = Some g'
              \<and> rel_object3d
                   (\<lambda>old new. case old of
                        Other u \<Rightarrow> new = old
                      | Mesh u cur \<Rightarrow>
                          new = Mesh u (case vm u of
                                          Some m \<Rightarrow> Single m
                                        | None \<Rightarrow> (case originalMaterials s u of
                                                     Some original \<Rightarrow> original
                                                   | None \<Rightarrow> cur)))
                   (graph g) (graph g')))
       \<and> (variantMaterialsKHR s (trim nm) = None \<longrightarrow>
           (\<forall>vm. variantMaterialsByName s (trim nm) = Some vm \<longrightarrow>
             (\<exists>g'. modelGroup (setVariant nm s) = Some g'
                \<and> rel_object3d
                     (\<lambda>old new. case old of
                          Other u \<Rightarrow> new = old
                        | Mesh u cur \<Rightarrow>
                            new = Mesh u (case vm u of Some m \<Rightarrow> Single m | None \<Rightarrow> cur))
                     (graph g) (graph g'))))"
proof (intro conjI allI impI)
  fix vm assume vm: "variantMaterialsKHR s (trim nm) = Some vm"
  show "\<exists>g'. modelGroup (setVariant nm s) = Some g'
              \<and> rel_object3d
                   (\<lambda>old new. case old of
                        Other u \<Rightarrow> new = old
                      | Mesh u cur \<Rightarrow>
                          new = Mesh u (case vm u of
                                          Some m \<Rightarrow> Single m
                                        | None \<Rightarrow> (case originalMaterials s u of
                                                     Some original \<Rightarrow> original
                                                   | None \<Rightarrow> cur)))
                   (graph g) (graph g')"
    unfolding setVariant_KHR [OF assms vm]
    by (simp add: applyVariantFromKHR_def vm onGraph_Some [OF assms(1)])
       (rule rel_traverse, simp split: node.split option.split)
next
  fix vm assume no: "variantMaterialsKHR s (trim nm) = None"
    and vm: "variantMaterialsByName s (trim nm) = Some vm"
  show "\<exists>g'. modelGroup (setVariant nm s) = Some g'
                \<and> rel_object3d
                     (\<lambda>old new. case old of
                          Other u \<Rightarrow> new = old
                        | Mesh u cur \<Rightarrow>
                            new = Mesh u (case vm u of Some m \<Rightarrow> Single m | None \<Rightarrow> cur))
                     (graph g) (graph g')"
    unfolding setVariant_ByName [OF assms no vm]
    by (simp add: applyVariantFromName_def vm onGraph_Some [OF assms(1)])
       (rule rel_traverse, simp split: node.split option.split)
qed

theorem setVariant_fallbacks_witness:
  "modelGroup mixedViewer \<noteq> None
   \<and> trim (utf16 ''Gold'') \<noteq> [] \<and> trim (utf16 ''Silver'') \<noteq> []
   \<and> variantMaterialsKHR mixedViewer (trim (utf16 ''Gold'')) = Some [''n1'' \<mapsto> Material 1]
   \<and> map_option graph (modelGroup (setVariant (utf16 ''Gold'') mixedViewer)) =
       Some (Object3D (Other ''group'')
               [Object3D (Other ''scene'')
                  [Object3D (Mesh ''n1'' (Single (Material 1))) [],
                   Object3D (Mesh ''n2'' (Single (Material 2))) []]])
   \<and> variantMaterialsKHR (setVariant (utf16 ''Gold'') mixedViewer) (trim (utf16 ''Silver''))
        = None
   \<and> variantMaterialsByName (setVariant (utf16 ''Gold'') mixedViewer) (trim (utf16 ''Silver''))
        = Some [''n2'' \<mapsto> Material 2]
   \<and> map_option graph
        (modelGroup (setVariant (utf16 ''Silver'') (setVariant (utf16 ''Gold'') mixedViewer))) =
       Some (Object3D (Other ''group'')
               [Object3D (Other ''scene'')
                  [Object3D (Mesh ''n1'' (Single (Material 1))) [],
                   Object3D (Mesh ''n2'' (Single (Material 2))) []]])
   \<and> trim (0xA0 # utf16 ''Gold'' @ [0xA0, 0x2003, 0xFEFF]) = utf16 ''Gold''
   \<and> map_option graph
        (modelGroup (setVariant (0xA0 # utf16 ''Gold'' @ [0xA0, 0x2003, 0xFEFF]) mixedViewer)) =
       Some (Object3D (Other ''group'')
               [Object3D (Other ''scene'')
                  [Object3D (Mesh ''n1'' (Single (Material 1))) [],
                   Object3D (Mesh ''n2'' (Single (Material 2))) []]])
   \<and> currentVariant (setVariant (0xA0 # utf16 ''Gold'' @ [0xA0, 0x2003, 0xFEFF]) mixedViewer)
        = Some (utf16 ''Gold'')"
  using setVariant_fallbacks [of mixedViewer _ "utf16 ''Gold''"]
        setVariant_fallbacks [of "setVariant (utf16 ''Gold'') mixedViewer" _ "utf16 ''Silver''"]
        setVariant_fallbacks [of mixedViewer _ "0xA0 # utf16 ''Gold'' @ [0xA0, 0x2003, 0xFEFF]"]
  by (simp add: mixedViewer_def newViewer_def setVariant_def applyVariantFromKHR_def
        applyVariantFromName_def onGraph_def traverse_def trim_def isWhiteSpace_def utf16_def
        Let_def)

text \<open>
  C2 (as stated) fails for a name that is a key of the structured table only with its
  surrounding white space: with the variant \<open>"Gold "\<close> in the table, \<open>setVariant("Gold ")\<close>
  looks up \<open>"Gold"\<close>, finds it in neither table, and restores the original material
  \<open>Material 0\<close> of the mesh instead of assigning the substitute \<open>Material 1\<close>.
\<close>

theorem setVariant_untrimmed_key_counterexample:
  "variantMaterialsKHR spacedViewer (utf16 ''Gold '') = Some [''n1'' \<mapsto> Material 1]
   \<and> map_option graph (modelGroup (setVariant (utf16 ''Gold '') spacedViewer)) =
       Some (Object3D (Other ''group'')
              [Object3D (Other ''scene'') [Object3D (Mesh ''n1'' (Single (Material 0))) []]])
   \<and> currentVariant (setVariant (utf16 ''Gold '') spacedViewer) = None"
  by (simp add: spacedViewer_def goldViewer_def newViewer_def setVariant_def
        restoreOriginalMaterials_def onGraph_def traverse_def trim_def isWhiteSpace_def
        utf16_def Let_def)

lemma goldViewer_example:
  "map_option graph (modelGroup (setVariant (utf16 ''Gold'') goldViewer)) =
     Some (Object3D (Other ''group'')
            [Object3D (Other ''scene'') [Object3D (Mesh ''n1'' (Single (Material 1))) []]])"
  "map_option graph (modelGroup (setVariant [] (setVariant (utf16 ''Gold'') goldViewer))) =
     Some (Object3D (Other ''group'')
            [Object3D (Other ''scene'') [Object3D (Mesh ''n1'' (Single (Material 0))) []]])"
  "map_option graph
     (modelGroup (setVariant (utf16 ''Unknown'') (setVariant (utf16 ''Gold'') goldViewer))) =
     Some (Object3D (Other ''group'')
            [Object3D (Other ''scene'') [Object3D (Mesh ''n1'' (Single (Material 0))) []]])"
  by (simp_all add: goldViewer_def newViewer_def setVariant_def applyVariantFromKHR_def
        restoreOriginalMaterials_def onGraph_def traverse_def trim_def isWhiteSpace_def
        utf16_def Let_def)

text \<open>
  C6 (as the code has it).  When a model group is present, \<open>setVariant\<close> with a name that
  is blank after trimming (it consists of white space only), or whose trimmed form is a
  key of neither table, clears the current-variant marker, so that \<open>getState\<close> reports
  no variant, and gives every mesh its captured original material (a mesh without a
  captured original keeps its material); other nodes are left as they are.  The model has
  no error result because no path of \<open>setVariant\<close> raises.  In the single-node example,
  with original \<open>M0 = Material 0\<close> and the structured entry of \<open>Gold\<close> for
  \<open>M1 = Material 1\<close>, \<open>setVariant("Gold")\<close> assigns \<open>M1\<close>, and after it \<open>setVariant("")\<close>
  and \<open>setVariant("Unknown")\<close> both restore \<open>M0\<close>.
\<close>

theorem setVariant_blank_or_unmatched:
  assumes "modelGroup s = Some g"
    and "trim nm = []
         \<or> (variantMaterialsKHR s (trim nm) = None \<and> variantMaterialsByName s (trim nm) = None)"
  shows "currentVariant (setVariant nm s) = None
       \<and> state_variant (getState (setVariant nm s)) = None
       \<and> (\<exists>g'. modelGroup (setVariant nm s) = Some g'
             \<and> rel_object3d
                  (\<lambda>old new. case old of
                       Other u \<Rightarrow> new = old
                     | Mesh u cur \<Rightarrow>
                         new = Mesh u (case originalMaterials s u of
                                         Some original \<Rightarrow> original
                                       | None \<Rightarrow> cur))
                  (graph g) (graph g'))
       \<and> map_option graph (modelGroup (setVariant (utf16 ''Gold'') goldViewer)) =
           Some (Object3D (Other ''group'')
                  [Object3D (Other ''scene'')
                     [Object3D (Mesh ''n1'' (Single (Material 1))) []]])
       \<and> map_option graph (modelGroup (setVariant [] (setVariant (utf16 ''Gold'') goldViewer))) =
           Some (Object3D (Other ''group'')
                  [Object3D (Other ''scene'')
                     [Object3D (Mesh ''n1'' (Single (Material 0))) []]])
       \<and> map_option graph
            (modelGroup (setVariant (utf16 ''Unknown'') (setVariant (utf16 ''Gold'') goldViewer))) =
           Some (Object3D (Other ''group'')
                  [Object3D (Other ''scene'')
                     [Object3D (Mesh ''n1'' (Single (Material 0))) []]])
       \<and> (trim nm = [] \<longleftrightarrow> (\<forall>c\<in>set nm. isWhiteSpace c))"
proof -
  have eq: "setVariant nm s = restoreOriginalMaterials (s\<lparr>currentVariant := None\<rparr>)"
    using assms setVariant_blank setVariant_unmatched by blast
  have g: "modelGroup (s\<lparr>currentVariant := None\<rparr>) = Some g"
    using assms(1) by simp
  have "currentVariant (setVariant nm s) = None
       \<and> state_variant (getState (setVariant nm s)) = None
       \<and> (\<exists>g'. modelGroup (setVariant nm s) = Some g'
             \<and> rel_object3d
                  (\<lambda>old new. case old of
                       Other u \<Rightarrow> new = old
                     | Mesh u cur \<Rightarrow>
                         new = Mesh u (case originalMaterials s u of
                                         Some original \<Rightarrow> original
                                       | None \<Rightarrow> cur))
                  (graph g) (graph g'))"
    unfolding eq restoreOriginalMaterials_def onGraph_Some [OF g]
    by (simp add: getState_def)
       (rule rel_traverse, simp split: node.split option.split)
  with goldViewer_example trim_blank [of nm] show ?thesis by blast
qed

theorem setVariant_blank_or_unmatched_witness:
  "modelGroup (setVariant (utf16 ''Gold'') goldViewer) \<noteq> None
   \<and> map_option graph (modelGroup (setVariant (utf16 ''Gold'') goldViewer)) =
       Some (Object3D (Other ''group'')
              [Object3D (Other ''scene'') [Object3D (Mesh ''n1'' (Single (Material 1))) []]])
   \<and> currentVariant (setVariant (utf16 ''Gold'') goldViewer) = Some (utf16 ''Gold'')
   \<and> trim [] = []
   \<and> map_option graph (modelGroup (setVariant [] (setVariant (utf16 ''Gold'') goldViewer))) =
       Some (Object3D (Other ''group'')
              [Object3D (Other ''scene'') [Object3D (Mesh ''n1'' (Single (Material 0))) []]])
   \<and> state_variant (getState (setVariant [] (setVariant (utf16 ''Gold'') goldViewer))) = None
   \<and> variantMaterialsKHR (setVariant (utf16 ''Gold'') goldViewer) (trim (utf16 ''Unknown'')) = None
   \<and> variantMaterialsByName (setVariant (utf16 ''Gold'') goldViewer) (trim (utf16 ''Unknown'')) = None
   \<and> map_option graph (modelGroup (setVariant (utf16 ''Unknown'') (setVariant (utf16 ''Gold'') goldViewer))) =
       Some (Object3D (Other ''group'')
              [Object3D (Other ''scene'') [Object3D (Mesh ''n1'' (Single (Material 0))) []]])
   \<and> state_variant (getState (setVariant (utf16 ''Unknown'') (setVariant (utf16 ''Gold'') goldViewer))) = None"
  using setVariant_blank_or_unmatched [of "setVariant (utf16 ''Gold'') goldViewer" _ "[]"]
        setVariant_blank_or_unmatched [of "setVariant (utf16 ''Gold'') goldViewer" _ "utf16 ''Unknown''"]
  by (simp add: goldViewer_def newViewer_def setVariant_def applyVariantFromKHR_def
        restoreOriginalMaterials_def getState_def
        onGraph_def traverse_def trim_def isWhiteSpace_def utf16_def Let_def)

text \<open>
  C6 (as stated) fails once the model group is gone: after \<open>setVariant("Gold")\<close> and
  \<open>dispose()\<close>, \<open>setVariant("")\<close> returns at its first line and \<open>getState\<close> still reports
  the variant \<open>Gold\<close>.
\<close>

theorem setVariant_blank_after_dispose_counterexample:
  "state_variant (getState (setVariant [] (dispose (setVariant (utf16 ''Gold'') goldViewer))))
     = Some (utf16 ''Gold'')"
  by (simp add: goldViewer_def newViewer_def setVariant_def applyVariantFromKHR_def
        getState_def dispose_def stopRenderLoop_def
        onGraph_def traverse_def trim_def isWhiteSpace_def utf16_def Let_def)

text \<open>
  C10.  Without a model group \<open>setVariant\<close> returns the viewer unchanged, whatever the
  name, the blank name included: in particular the variant reported by \<open>getState\<close> and
  both variant tables are what they were.
\<close>

theorem setVariant_without_model:
  assumes "modelGroup s = None"
  shows "setVariant nm s = s
       \<and> state_variant (getState (setVariant nm s)) = state_variant (getState s)
       \<and> variantMaterialsKHR (setVariant nm s) = variantMaterialsKHR s
       \<and> variantMaterialsByName (setVariant nm s) = variantMaterialsByName s"
  using assms by (simp add: setVariant_def)

theorem setVariant_without_model_witness:
  "modelGroup (dispose (setVariant (utf16 ''Gold'') goldViewer)) = None
   \<and> setVariant [] (dispose (setVariant (utf16 ''Gold'') goldViewer))
       = dispose (setVariant (utf16 ''Gold'') goldViewer)
   \<and> setVariant (utf16 ''Gold'') (dispose (setVariant (utf16 ''Gold'') goldViewer))
       = dispose (setVariant (utf16 ''Gold'') goldViewer)"
  using setVariant_without_model [of "dispose (setVariant (utf16 ''Gold'') goldViewer)" "[]"]
        setVariant_without_model [of "dispose (setVariant (utf16 ''Gold'') goldViewer)" "utf16 ''Gold''"]
  by (simp add: dispose_def Let_def)

section \<open>Nearest preset\<close>



lemma findNearestPreset_None: "findNearestPreset s = None \<longleftrightarrow> presets s = []"
  by (simp add: findNearestPreset_def split: list.split)

lemma hypot_less_iff: "hypot a c < hypot b c \<longleftrightarrow> \<bar>a\<bar> < \<bar>b\<bar>"
proof -
  have "hypot a c < hypot b c \<longleftrightarrow> a\<^sup>2 < b\<^sup>2"
    by (simp add: hypot_def)
  also have "\<dots> \<longleftrightarrow> \<bar>a\<bar> < \<bar>b\<bar>"
    by (metis abs_ge_zero abs_le_square_iff not_le power2_abs)
  finally show ?thesis .
qed




lemma findNearestPreset_eval:
  assumes "presets s = ps" "currentYaw s = cy" "currentPitch s = cp"
  shows "findNearestPreset s =
           (case ps of [] \<Rightarrow> None | p0 # _ \<Rightarrow> Some (fst (nearestLoop cy cp ps (p0, None))))"
  using assms by (simp add: findNearestPreset_def split: list.split)

lemma findNearestPreset_cong:
  "presets s' = presets s \<Longrightarrow> currentYaw s' = currentYaw s \<Longrightarrow> currentPitch s' = currentPitch s
     \<Longrightarrow> findNearestPreset s' = findNearestPreset s"
  by (simp add: findNearestPreset_def split: list.split)



section \<open>Pointer release\<close>

text \<open>
  C7.  The pointer handlers run while the renderer exists (they are attached by
  \<open>initEvents\<close> and detached by \<open>dispose\<close>).  After two pointers with different ids go
  down on a viewer that tracks none and one of the two is released, exactly one pointer is
  tracked, the snap record is what it was before the release, and drag mode is still on.
  When a release leaves no tracked pointer and drag mode is on, drag mode is exited, the
  container loses the class \<open>is-dragging\<close>, and a snap from the current orientation to the
  nearest preset starts at the time of the release, unless there is no nearest preset,
  which is the case exactly when the preset list is empty.  In every other case a release
  leaves the snap record, drag mode and the container classes as they were.
\<close>

theorem onPointerUp_snap:
  assumes "renderer s"
  shows "(pointers s = [] \<and> pointerId e1 \<noteq> pointerId e2
          \<and> pointerId up \<in> {pointerId e1, pointerId e2} \<longrightarrow>
            length (pointers (onPointerUp up now (onPointerDown e2 (onPointerDown e1 s)))) = 1
          \<and> snap (onPointerUp up now (onPointerDown e2 (onPointerDown e1 s)))
              = snap (onPointerDown e2 (onPointerDown e1 s))
          \<and> dragging (onPointerUp up now (onPointerDown e2 (onPointerDown e1 s))))
       \<and> (AList.delete (pointerId up) (pointers s) = [] \<and> dragging s \<longrightarrow>
            pointers (onPointerUp up now s) = []
          \<and> \<not> dragging (onPointerUp up now s)
          \<and> ''is-dragging'' \<notin> containerClasses (onPointerUp up now s)
          \<and> (case findNearestPreset s of
                None \<Rightarrow> snap (onPointerUp up now s) = snap s
              | Some p \<Rightarrow>
                  snap (onPointerUp up now s) =
                    \<lparr>active = True, startYaw = currentYaw s, startPitch = currentPitch s,
                     targetYaw = yaw p, targetPitch = pitch p, startTime = now,
                     duration = 450\<rparr>)
          \<and> (findNearestPreset s = None \<longleftrightarrow> presets s = []))
       \<and> (\<not> (AList.delete (pointerId up) (pointers s) = [] \<and> dragging s) \<longrightarrow>
            snap (onPointerUp up now s) = snap s
          \<and> dragging (onPointerUp up now s) = dragging s
          \<and> containerClasses (onPointerUp up now s) = containerClasses s)"
proof (intro conjI impI)
  assume "pointers s = [] \<and> pointerId e1 \<noteq> pointerId e2
          \<and> pointerId up \<in> {pointerId e1, pointerId e2}"
  then show "length (pointers (onPointerUp up now (onPointerDown e2 (onPointerDown e1 s)))) = 1"
    and "snap (onPointerUp up now (onPointerDown e2 (onPointerDown e1 s)))
              = snap (onPointerDown e2 (onPointerDown e1 s))"
    and "dragging (onPointerUp up now (onPointerDown e2 (onPointerDown e1 s)))"
    using assms by (auto simp: onPointerDown_def onPointerUp_def Let_def)
next
  assume a: "AList.delete (pointerId up) (pointers s) = [] \<and> dragging s"
  have f: "findNearestPreset
             (s\<lparr>pointers := [], dragging := False,
                containerClasses := containerClasses s - {''is-dragging''}\<rparr>)
           = findNearestPreset s"
    by (rule findNearestPreset_cong) simp_all
  from a assms show "pointers (onPointerUp up now s) = []"
    and "\<not> dragging (onPointerUp up now s)"
    and "''is-dragging'' \<notin> containerClasses (onPointerUp up now s)"
    and "case findNearestPreset s of
                None \<Rightarrow> snap (onPointerUp up now s) = snap s
              | Some p \<Rightarrow>
                  snap (onPointerUp up now s) =
                    \<lparr>active = True, startYaw = currentYaw s, startPitch = currentPitch s,
                     targetYaw = yaw p, targetPitch = pitch p, startTime = now,
                     duration = 450\<rparr>"
    by (simp_all add: onPointerUp_def Let_def f startSnapTo_def split: option.split)
  show "findNearestPreset s = None \<longleftrightarrow> presets s = []"
    by (rule findNearestPreset_None)
next
  assume "\<not> (AList.delete (pointerId up) (pointers s) = [] \<and> dragging s)"
  then show "snap (onPointerUp up now s) = snap s"
    and "dragging (onPointerUp up now s) = dragging s"
    and "containerClasses (onPointerUp up now s) = containerClasses s"
    using assms by (auto simp: onPointerUp_def Let_def)
qed

theorem onPointerUp_snap_witness:
  "renderer (newViewer 1)
   \<and> pointers (newViewer 1) = []
   \<and> length (pointers (onPointerUp \<lparr>pointerId = 1, clientX = 10, clientY = 10\<rparr> 100
        (onPointerDown \<lparr>pointerId = 2, clientX = 50, clientY = 50\<rparr>
          (onPointerDown \<lparr>pointerId = 1, clientX = 10, clientY = 10\<rparr> (newViewer 1))))) = 1
   \<and> \<not> active (snap (onPointerUp \<lparr>pointerId = 1, clientX = 10, clientY = 10\<rparr> 100
        (onPointerDown \<lparr>pointerId = 2, clientX = 50, clientY = 50\<rparr>
          (onPointerDown \<lparr>pointerId = 1, clientX = 10, clientY = 10\<rparr> (newViewer 1)))))
   \<and> snap (onPointerUp \<lparr>pointerId = 2, clientX = 50, clientY = 50\<rparr> 200
        (onPointerUp \<lparr>pointerId = 1, clientX = 10, clientY = 10\<rparr> 100
          (onPointerDown \<lparr>pointerId = 2, clientX = 50, clientY = 50\<rparr>
            (onPointerDown \<lparr>pointerId = 1, clientX = 10, clientY = 10\<rparr> (newViewer 1)))))
       = \<lparr>active = True, startYaw = 0, startPitch = 0, targetYaw = 0, targetPitch = 0,
          startTime = 200, duration = 450\<rparr>"
proof -
  let ?e1 = "\<lparr>pointerId = 1, clientX = 10, clientY = 10\<rparr>"
  let ?e2 = "\<lparr>pointerId = 2, clientX = 50, clientY = 50\<rparr>"
  let ?s2 = "onPointerDown ?e2 (onPointerDown ?e1 (newViewer 1))"
  let ?s3 = "onPointerUp ?e1 100 ?s2"
  have r0: "renderer (newViewer 1)" "pointers (newViewer 1) = []"
    by (simp_all add: newViewer_def)
  have a2: "\<not> active (snap ?s2)"
    by (simp add: newViewer_def onPointerDown_def Let_def)
  have one: "length (pointers ?s3) = 1 \<and> snap ?s3 = snap ?s2 \<and> dragging ?s3"
    using onPointerUp_snap [OF r0(1), of ?e1 ?e2 ?e1 100] r0(2) by simp
  have r3: "renderer ?s3" "AList.delete 2 (pointers ?s3) = []"
    "currentYaw ?s3 = 0" "currentPitch ?s3 = 0" "presets ?s3 = DEFAULT_PRESETS"
    by (simp_all add: newViewer_def onPointerDown_def onPointerUp_def Let_def)
  have f3: "findNearestPreset ?s3 = Some \<lparr>name = ''front'', yaw = 0, pitch = 0\<rparr>"
    using pi_ge_two
    by (subst findNearestPreset_eval [OF r3(5) r3(3) r3(4)])
       (simp add: DEFAULT_PRESETS_def Let_def wrapAngle_fixed wrapAngle_above hypot_less_iff)
  have two: "snap (onPointerUp ?e2 200 ?s3)
       = \<lparr>active = True, startYaw = 0, startPitch = 0, targetYaw = 0, targetPitch = 0,
          startTime = 200, duration = 450\<rparr>"
    using onPointerUp_snap [OF r3(1), of ?e2 ?e1 ?e2 200] r3(2-4) one f3 by simp
  from r0 a2 one two show ?thesis by simp
qed

section \<open>Orientation\<close>

lemma length_update_present:
  "map_of ps k = Some v \<Longrightarrow> length (AList.update k v' ps) = length ps"
  by (induction ps) (auto split: if_splits)

lemma onPointerMove_drag:
  assumes "renderer s" "map_of (pointers s) (pointerId ev) = Some prev"
    "length (pointers s) = 1" "dragging s"
  shows "currentYaw (onPointerMove ev s)
           = fl (currentYaw s + fl (fl (clientX ev - fst prev) * fl (5 / 1000)))"
    and "currentPitch (onPointerMove ev s)
           = wrapAngle (fl (currentPitch s + fl (fl (clientY ev - snd prev) * fl (5 / 1000))))"
  using assms
  by (simp_all add: onPointerMove_def Let_def length_update_present updateModelRotation_def
        dadd_def dsub_def dmul_def split: option.split)

lemma onPointerMove_other:
  assumes "\<not> (renderer s \<and> map_of (pointers s) (pointerId ev) \<noteq> None
             \<and> length (pointers s) = 1 \<and> dragging s)"
  shows "currentYaw (onPointerMove ev s) = currentYaw s"
    and "currentPitch (onPointerMove ev s) = currentPitch s"
  using assms
  by (auto simp add: onPointerMove_def Let_def length_update_present updateModelRotation_def
        orientation_updateDistance split: option.split)

lemma orientation_startSnapTo:
  "currentYaw (startSnapTo y p now s) = currentYaw s"
  "currentPitch (startSnapTo y p now s) = currentPitch s"
  by (simp_all add: startSnapTo_def)

lemma orientation_setPreset:
  "currentYaw (setPreset nm now s) = currentYaw s"
  "currentPitch (setPreset nm now s) = currentPitch s"
  by (simp_all add: setPreset_def orientation_startSnapTo split: option.split)

lemma orientation_onWheel:
  "currentYaw (onWheel w s) = currentYaw s"
  "currentPitch (onWheel w s) = currentPitch s"
  by (simp_all add: onWheel_def orientation_updateDistance)

lemma orientation_onPointerUp:
  "currentYaw (onPointerUp ev now s) = currentYaw s"
  "currentPitch (onPointerUp ev now s) = currentPitch s"
  by (simp_all add: onPointerUp_def Let_def orientation_startSnapTo split: option.split)

lemma orientation_onPointerDown:
  "currentYaw (onPointerDown ev s) = currentYaw s"
  "currentPitch (onPointerDown ev s) = currentPitch s"
  by (simp_all add: onPointerDown_def Let_def)

text \<open>
  C1 (as the code has it).  On a pointer move in drag mode with exactly one tracked
  pointer (orientation and coordinates being moderate doubles), pitch becomes
  \<open>wrapAngle(pitch + dy * 0.005)\<close>, which lies in the closed interval from \<open>-\<pi>\<close> to \<open>\<pi>\<close>,
  and yaw becomes \<open>yaw + dx * 0.005\<close>, accumulated and not wrapped; the sums and products
  are rounded as the machine rounds them.  Every other pointer move (a pinch among them),
  the wheel, pointer down, pointer release and \<open>setPreset\<close> (which start a snap) leave yaw
  and pitch as they are.  A tick of an idle snap changes nothing; a tick of an active snap
  overwrites yaw and pitch with \<open>start + (target - start) * ease\<close>, which is not wrapped
  either.
\<close>

theorem orientation_after_mutation:
  "(renderer s \<and> map_of (pointers s) (pointerId ev) = Some prev
      \<and> length (pointers s) = 1 \<and> dragging s
      \<and> moderate (currentYaw s) \<and> moderate (currentPitch s)
      \<and> moderate (clientX ev) \<and> moderate (clientY ev)
      \<and> moderate (fst prev) \<and> moderate (snd prev) \<longrightarrow>
        currentYaw (onPointerMove ev s)
          = fl (currentYaw s + fl (fl (clientX ev - fst prev) * fl (5 / 1000)))
      \<and> currentPitch (onPointerMove ev s)
          = wrapAngle (fl (currentPitch s + fl (fl (clientY ev - snd prev) * fl (5 / 1000))))
      \<and> - pi \<le> currentPitch (onPointerMove ev s)
      \<and> currentPitch (onPointerMove ev s) \<le> pi)
   \<and> (\<not> (renderer s \<and> map_of (pointers s) (pointerId ev) \<noteq> None
           \<and> length (pointers s) = 1 \<and> dragging s) \<longrightarrow>
        currentYaw (onPointerMove ev s) = currentYaw s
      \<and> currentPitch (onPointerMove ev s) = currentPitch s)
   \<and> currentYaw (onWheel w s) = currentYaw s
   \<and> currentPitch (onWheel w s) = currentPitch s
   \<and> currentYaw (onPointerDown ev s) = currentYaw s
   \<and> currentPitch (onPointerDown ev s) = currentPitch s
   \<and> currentYaw (onPointerUp ev now s) = currentYaw s
   \<and> currentPitch (onPointerUp ev now s) = currentPitch s
   \<and> currentYaw (setPreset nm now s) = currentYaw s
   \<and> currentPitch (setPreset nm now s) = currentPitch s
   \<and> (\<not> active (snap s) \<longrightarrow> updateSnap now s = s)
   \<and> (active (snap s) \<and> duration (snap s) = 450
        \<and> moderate now \<and> moderate (startTime (snap s))
        \<and> moderate (startYaw (snap s)) \<and> moderate (targetYaw (snap s))
        \<and> moderate (startPitch (snap s)) \<and> moderate (targetPitch (snap s)) \<longrightarrow>
        (let t = min 1 (max 0 (fl (fl (now - startTime (snap s)) / 450)));
             ease = fl (t * fl (2 - t))
         in currentYaw (updateSnap now s)
              = fl (startYaw (snap s)
                     + fl (fl (targetYaw (snap s) - startYaw (snap s)) * ease))
          \<and> currentPitch (updateSnap now s)
              = fl (startPitch (snap s)
                     + fl (fl (targetPitch (snap s) - startPitch (snap s)) * ease))))"
proof -
  have drag: "renderer s \<and> map_of (pointers s) (pointerId ev) = Some prev
      \<and> length (pointers s) = 1 \<and> dragging s
      \<and> moderate (currentYaw s) \<and> moderate (currentPitch s)
      \<and> moderate (clientX ev) \<and> moderate (clientY ev)
      \<and> moderate (fst prev) \<and> moderate (snd prev) \<longrightarrow>
        currentYaw (onPointerMove ev s)
          = fl (currentYaw s + fl (fl (clientX ev - fst prev) * fl (5 / 1000)))
      \<and> currentPitch (onPointerMove ev s)
          = wrapAngle (fl (currentPitch s + fl (fl (clientY ev - snd prev) * fl (5 / 1000))))
      \<and> - pi \<le> currentPitch (onPointerMove ev s)
      \<and> currentPitch (onPointerMove ev s) \<le> pi"
    using onPointerMove_drag [of s ev prev]
      wrapAngle_range [of "fl (currentPitch s + fl (fl (clientY ev - snd prev) * fl (5 / 1000)))"]
    by simp
  have other: "\<not> (renderer s \<and> map_of (pointers s) (pointerId ev) \<noteq> None
           \<and> length (pointers s) = 1 \<and> dragging s) \<longrightarrow>
        currentYaw (onPointerMove ev s) = currentYaw s
      \<and> currentPitch (onPointerMove ev s) = currentPitch s"
    using onPointerMove_other [of s ev] by blast
  have idle: "\<not> active (snap s) \<longrightarrow> updateSnap now s = s"
    by (simp add: updateSnap_idle)
  have tick: "active (snap s) \<and> duration (snap s) = 450
        \<and> moderate now \<and> moderate (startTime (snap s))
        \<and> moderate (startYaw (snap s)) \<and> moderate (targetYaw (snap s))
        \<and> moderate (startPitch (snap s)) \<and> moderate (targetPitch (snap s)) \<longrightarrow>
        (let t = min 1 (max 0 (fl (fl (now - startTime (snap s)) / 450)));
             ease = fl (t * fl (2 - t))
         in currentYaw (updateSnap now s)
              = fl (startYaw (snap s)
                     + fl (fl (targetYaw (snap s) - startYaw (snap s)) * ease))
          \<and> currentPitch (updateSnap now s)
              = fl (startPitch (snap s)
                     + fl (fl (targetPitch (snap s) - startPitch (snap s)) * ease)))"
  proof (intro impI, elim conjE)
    assume a: "active (snap s)" and d: "duration (snap s) = 450"
    note u = updateSnap_active(1,2) [OF a, of now, unfolded d]
    show "let t = min 1 (max 0 (fl (fl (now - startTime (snap s)) / 450)));
             ease = fl (t * fl (2 - t))
         in currentYaw (updateSnap now s)
              = fl (startYaw (snap s)
                     + fl (fl (targetYaw (snap s) - startYaw (snap s)) * ease))
          \<and> currentPitch (updateSnap now s)
              = fl (startPitch (snap s)
                     + fl (fl (targetPitch (snap s) - startPitch (snap s)) * ease))"
      unfolding Let_def u by simp
  qed
  show ?thesis
    by (intro conjI drag other idle tick orientation_onWheel orientation_onPointerDown
          orientation_onPointerUp orientation_setPreset)
qed

lemma drag_example:
  "renderer (onPointerDown \<lparr>pointerId = 1, clientX = 0, clientY = 0\<rparr> (newViewer 1))"
  "map_of (pointers (onPointerDown \<lparr>pointerId = 1, clientX = 0, clientY = 0\<rparr> (newViewer 1)))
     (pointerId \<lparr>pointerId = 1, clientX = 800, clientY = 100\<rparr>) = Some (0, 0)"
  "length (pointers (onPointerDown \<lparr>pointerId = 1, clientX = 0, clientY = 0\<rparr> (newViewer 1))) = 1"
  "dragging (onPointerDown \<lparr>pointerId = 1, clientX = 0, clientY = 0\<rparr> (newViewer 1))"
  "currentYaw (onPointerDown \<lparr>pointerId = 1, clientX = 0, clientY = 0\<rparr> (newViewer 1)) = 0"
  "currentPitch (onPointerDown \<lparr>pointerId = 1, clientX = 0, clientY = 0\<rparr> (newViewer 1)) = 0"
  by (simp_all add: onPointerDown_def newViewer_def Let_def)

text \<open>The yaw and pitch steps of a drag by 800 and by 100 pixels: exactly 4 and 1/2.\<close>

lemma drag_steps:
  "fl (0 + fl (fl (800 - 0) * fl (5 / 1000))) = 4"
  "fl (0 + fl (fl (100 - 0) * fl (5 / 1000))) = 1 / 2"
proof -
  have a: "fl (800 - 0) = 800" "fl (100 - 0) = 100"
    using fl_of_int [of 800] fl_of_int [of 100] by simp_all
  have b: "fl (800 * (5764607523034235 / 2 ^ 60)) = 4"
    by (subst fl_eval [of 2]) (simp_all add: rne_def Let_def)
  have c: "fl (100 * (5764607523034235 / 2 ^ 60)) = 1 / 2"
    by (subst fl_eval [of "- 1"]) (simp_all add: rne_def Let_def)
  have d: "fl (0 + 4) = 4" "fl (0 + 1 / 2) = 1 / 2"
    using fl_of_int [of 4] fl_dyadic [of 1 "- 1"] by simp_all
  show "fl (0 + fl (fl (800 - 0) * fl (5 / 1000))) = 4"
    unfolding a fl_5_1000 b d by (rule refl)
  show "fl (0 + fl (fl (100 - 0) * fl (5 / 1000))) = 1 / 2"
    unfolding a fl_5_1000 c d by (rule refl)
qed

theorem orientation_after_mutation_witness:
  "renderer (onPointerDown \<lparr>pointerId = 1, clientX = 0, clientY = 0\<rparr> (newViewer 1))
   \<and> map_of (pointers (onPointerDown \<lparr>pointerId = 1, clientX = 0, clientY = 0\<rparr> (newViewer 1)))
        (pointerId \<lparr>pointerId = 1, clientX = 800, clientY = 100\<rparr>) = Some (0, 0)
   \<and> length (pointers (onPointerDown \<lparr>pointerId = 1, clientX = 0, clientY = 0\<rparr> (newViewer 1))) = 1
   \<and> dragging (onPointerDown \<lparr>pointerId = 1, clientX = 0, clientY = 0\<rparr> (newViewer 1))
   \<and> moderate 0 \<and> moderate 800 \<and> moderate 100
   \<and> currentYaw (onPointerMove \<lparr>pointerId = 1, clientX = 800, clientY = 100\<rparr>
        (onPointerDown \<lparr>pointerId = 1, clientX = 0, clientY = 0\<rparr> (newViewer 1))) = 4
   \<and> currentPitch (onPointerMove \<lparr>pointerId = 1, clientX = 800, clientY = 100\<rparr>
        (onPointerDown \<lparr>pointerId = 1, clientX = 0, clientY = 0\<rparr> (newViewer 1))) = 1 / 2"
proof -
  let ?s = "onPointerDown \<lparr>pointerId = 1, clientX = 0, clientY = 0\<rparr> (newViewer 1)"
  let ?ev = "\<lparr>pointerId = 1, clientX = 800, clientY = 100\<rparr>"
  have h: "renderer ?s \<and> map_of (pointers ?s) (pointerId ?ev) = Some (0, 0)
      \<and> length (pointers ?s) = 1 \<and> dragging ?s
      \<and> moderate (currentYaw ?s) \<and> moderate (currentPitch ?s)
      \<and> moderate (clientX ?ev) \<and> moderate (clientY ?ev)
      \<and> moderate (fst (0::real, 0::real)) \<and> moderate (snd (0::real, 0::real))"
    unfolding drag_example(5,6) using drag_example(1-4) by simp
  have w: "wrapAngle (1 / 2) = 1 / 2"
    using pi_ge_two by (intro wrapAngle_fixed) simp_all
  from orientation_after_mutation [of ?s ?ev "(0, 0)", THEN conjunct1, rule_format, OF h]
  have "currentYaw (onPointerMove ?ev ?s) = 4 \<and> currentPitch (onPointerMove ?ev ?s) = 1 / 2"
    unfolding drag_example(5,6) fst_conv snd_conv pointerEvent.simps drag_steps w by simp
  with drag_example(1-4) show ?thesis by simp
qed

text \<open>
  C1 (as stated) fails for yaw: after pointer 1 goes down at \<open>(0, 0)\<close> on a new viewer and
  moves to \<open>(800, 100)\<close>, yaw is \<open>800 * 0.005 = 4\<close>, which is above \<open>\<pi>\<close>.
\<close>

theorem drag_yaw_not_wrapped_counterexample:
  "\<not> (- pi < currentYaw (onPointerMove \<lparr>pointerId = 1, clientX = 800, clientY = 100\<rparr>
              (onPointerDown \<lparr>pointerId = 1, clientX = 0, clientY = 0\<rparr> (newViewer 1)))
      \<and> currentYaw (onPointerMove \<lparr>pointerId = 1, clientX = 800, clientY = 100\<rparr>
              (onPointerDown \<lparr>pointerId = 1, clientX = 0, clientY = 0\<rparr> (newViewer 1))) \<le> pi)"
proof -
  have "currentYaw (onPointerMove \<lparr>pointerId = 1, clientX = 800, clientY = 100\<rparr>
              (onPointerDown \<lparr>pointerId = 1, clientX = 0, clientY = 0\<rparr> (newViewer 1))) = 4"
    unfolding onPointerMove_drag(1) [OF drag_example(1-4)] drag_example(5)
      fst_conv pointerEvent.simps drag_steps
    by (rule refl)
  then show ?thesis using pi_less_4 by simp
qed

end
